theory Spec2Isabelle
  imports Main "HOL-Library.Sublist"
begin

section \<open>Strings of the source\<close>

text \<open>
  A JavaScript string is a sequence of code units; it is modelled as a \<open>string\<close>
  (a list of characters). The operations used by the source are
  \<^verbatim>\<open>s.startsWith(p)\<close> and \<^verbatim>\<open>xs.join(sep)\<close>.
\<close>

definition startsWith :: "string \<Rightarrow> string \<Rightarrow> bool" where
  "startsWith s p = (take (length p) s = p)"

fun join :: "string list \<Rightarrow> string \<Rightarrow> string" where
  "join [] sep = []"
| "join [x] sep = x"
| "join (x # y # ys) sep = x @ sep @ join (y # ys) sep"

section \<open>Validation utilities (\<open>WhatsAppVoiceUtils\<close>)\<close>

text \<open>
  \<^verbatim>\<open>s.replace(/^whatsapp:/, '')\<close>: the pattern is anchored at the start and has no
  global flag, so one leading occurrence of the prefix is removed, if there is one.
\<close>

definition strip_whatsapp :: "string \<Rightarrow> string" where
  "strip_whatsapp s = (if startsWith s ''whatsapp:'' then drop 9 s else s)"

text \<open>
  \<^verbatim>\<open>
  formatWhatsAppNumber: (phoneNumber: string): string => {
    const cleanNumber = phoneNumber.replace(/^whatsapp:/, '');
    const formattedNumber = cleanNumber.startsWith('+') ? cleanNumber : `+${cleanNumber}`;
    return `whatsapp:${formattedNumber}`;
  }
  \<close>
\<close>

definition formatWhatsAppNumber :: "string \<Rightarrow> string" where
  "formatWhatsAppNumber phoneNumber =
     (let cleanNumber = strip_whatsapp phoneNumber;
          formattedNumber = (if startsWith cleanNumber ''+'' then cleanNumber
                             else ''+'' @ cleanNumber)
      in ''whatsapp:'' @ formattedNumber)"

text \<open>The character classes \<^verbatim>\<open>\d\<close> and \<^verbatim>\<open>[1-9]\<close> of the regular expression.\<close>

definition is_digit :: "char \<Rightarrow> bool" where
  "is_digit c = (c \<in> set ''0123456789'')"

definition is_digit_1_9 :: "char \<Rightarrow> bool" where
  "is_digit_1_9 c = (c \<in> set ''123456789'')"

text \<open>
  \<^verbatim>\<open>
  isValidWhatsAppNumber: (number: string): boolean => {
    const whatsappRegex = /^whatsapp:\+[1-9]\d{1,14}$/;
    return whatsappRegex.test(number);
  }
  \<close>
  The expression is anchored on both sides and has no flags: the whole string is the
  literal \<^verbatim>\<open>whatsapp:+\<close>, one character of \<^verbatim>\<open>[1-9]\<close>, and between 1 and 14
  characters of \<^verbatim>\<open>\d\<close>.
\<close>

definition isValidWhatsAppNumber :: "string \<Rightarrow> bool" where
  "isValidWhatsAppNumber number =
     (startsWith number ''whatsapp:+'' \<and>
      (case drop 10 number of
         [] \<Rightarrow> False
       | d # ds \<Rightarrow> is_digit_1_9 d \<and> 1 \<le> length ds \<and> length ds \<le> 14 \<and> list_all is_digit ds))"

text \<open>
  \<^verbatim>\<open>
  extractPhoneNumber: (whatsappNumber: string): string => {
    return whatsappNumber.replace(/^whatsapp:/, '');
  }
  \<close>
\<close>

definition extractPhoneNumber :: "string \<Rightarrow> string" where
  "extractPhoneNumber whatsappNumber = strip_whatsapp whatsappNumber"

section \<open>Call-control documents (\<open>twiml-templates.ts\<close>)\<close>

subsection \<open>Values interpolated into a template\<close>

text \<open>
  A template literal \<^verbatim>\<open>${e}\<close> inserts \<open>String(e)\<close>. Numbers are modelled as
  integers, printed in decimal (what JavaScript prints for an integral number below
  \<open>10^21\<close>); \<open>0\<close> is falsy, as is the empty string and \<^verbatim>\<open>undefined\<close>
  (\<open>None\<close>).
\<close>

definition digit_char :: "nat \<Rightarrow> char" where
  "digit_char d = ''0123456789'' ! (d mod 10)"

fun decimal :: "nat \<Rightarrow> string" where
  "decimal n = (if 10 \<le> n then decimal (n div 10) else []) @ [digit_char n]"

definition string_of_number :: "int \<Rightarrow> string" where
  "string_of_number i =
     (if i < 0 then ''-'' @ decimal (nat (- i)) else decimal (nat i))"

text \<open>\<^verbatim>\<open>options?.f\<close>: \<^verbatim>\<open>undefined\<close> when the options object is absent.\<close>

definition field :: "'o option \<Rightarrow> ('o \<Rightarrow> 'v option) \<Rightarrow> 'v option" where
  "field options f = (case options of None \<Rightarrow> None | Some opts \<Rightarrow> f opts)"

text \<open>\<^verbatim>\<open>a || d\<close> on strings: the default replaces \<^verbatim>\<open>undefined\<close> and \<^verbatim>\<open>''\<close>.\<close>

definition or_default :: "string option \<Rightarrow> string \<Rightarrow> string" where
  "or_default a d = (case a of None \<Rightarrow> d | Some s \<Rightarrow> if s = [] then d else s)"

text \<open>\<^verbatim>\<open>name="${v}"\<close>\<close>

definition attr :: "string \<Rightarrow> string \<Rightarrow> string" where
  \<open>attr name v = name @ ''="'' @ v @ ''"''\<close>

text \<open>\<^verbatim>\<open>if (options?.f) attrs.push(`f="${options.f}"`)\<close>, for a string, a number and a boolean.\<close>

definition str_attr :: "string \<Rightarrow> string option \<Rightarrow> string list" where
  "str_attr name v = (case v of None \<Rightarrow> [] | Some s \<Rightarrow> if s = [] then [] else [attr name s])"

definition num_attr :: "string \<Rightarrow> int option \<Rightarrow> string list" where
  "num_attr name v =
     (case v of None \<Rightarrow> [] | Some n \<Rightarrow> if n = 0 then [] else [attr name (string_of_number n)])"

definition string_of_bool :: "bool \<Rightarrow> string" where
  "string_of_bool b = (if b then ''true'' else ''false'')"

definition truthy_bool_attr :: "string \<Rightarrow> bool option \<Rightarrow> string list" where
  "truthy_bool_attr name v =
     (case v of None \<Rightarrow> [] | Some b \<Rightarrow> if b then [attr name (string_of_bool b)] else [])"

text \<open>\<^verbatim>\<open>if (options?.f !== undefined) attrs.push(`f="${options.f}"`)\<close>\<close>

definition defined_bool_attr :: "string \<Rightarrow> bool option \<Rightarrow> string list" where
  "defined_bool_attr name v =
     (case v of None \<Rightarrow> [] | Some b \<Rightarrow> [attr name (string_of_bool b)])"

text \<open>\<^verbatim>\<open>attrs.length ? ' ' + attrs.join(' ') : ''\<close>\<close>

definition tag_attrs :: "string list \<Rightarrow> string" where
  "tag_attrs attrs = (if length attrs \<noteq> 0 then '' '' @ join attrs '' '' else [])"

text \<open>
  \<^verbatim>\<open>s.replace('whatsapp:', '')\<close> with a string pattern: the first occurrence, wherever
  it stands, is replaced.
\<close>

fun replace_first :: "string \<Rightarrow> string \<Rightarrow> string \<Rightarrow> string" where
  "replace_first [] pat rep = (if pat = [] then rep else [])"
| "replace_first (c # cs) pat rep =
     (if startsWith (c # cs) pat then rep @ drop (length pat) (c # cs)
      else c # replace_first cs pat rep)"

subsection \<open>\<open>TwiMLTemplates.incomingCall\<close>\<close>

text \<open>
  \<^verbatim>\<open>
  incomingCall: (params: { callerId: string; clientIdentity?: string;
                           customParams?: Record<string, string>; }) =>
  `<?xml version="1.0" encoding="UTF-8"?>
  <Response>
    <Say voice="Polly.Joanna">Welcome to WhatsApp Business Calling</Say>
    <Dial callerId="${params.callerId}">
      <Client>
        <Identity>${params.clientIdentity || 'default-client'}</Identity>
        ${Object.entries(params.customParams || {}).map(([key, value]) =>
          `<Parameter name="${key}" value="${value}" />`
        ).join('\n      ')}
      </Client>
    </Dial>
  </Response>`
  \<close>
  \<open>customParams\<close> is the list \<^verbatim>\<open>Object.entries\<close> enumerates, in its order.
\<close>

record incoming_params =
  callerId :: string
  clientIdentity :: "string option"
  customParams :: "(string \<times> string) list option"

definition parameter_element :: "string \<times> string \<Rightarrow> string" where
  \<open>parameter_element kv =
     ''<Parameter name="'' @ fst kv @ ''" value="'' @ snd kv @ ''" />''\<close>

definition incomingCall :: "incoming_params \<Rightarrow> string" where
  \<open>incomingCall params =
     ''<?xml version="1.0" encoding="UTF-8"?>\<newline>'' @
     ''<Response>\<newline>'' @
     ''  <Say voice="Polly.Joanna">Welcome to WhatsApp Business Calling</Say>\<newline>'' @
     ''  <Dial callerId="'' @ callerId params @ ''">\<newline>'' @
     ''    <Client>\<newline>'' @
     ''      <Identity>'' @ or_default (clientIdentity params) ''default-client'' @
       ''</Identity>\<newline>'' @
     ''      '' @
       join (map parameter_element
               (case customParams params of None \<Rightarrow> [] | Some entries \<Rightarrow> entries))
            ''\<newline>      '' @ ''\<newline>'' @
     ''    </Client>\<newline>'' @
     ''  </Dial>\<newline>'' @
     ''</Response>''\<close>

subsection \<open>\<open>TwiMLBuilder\<close>, \<open>DialBuilder\<close> and \<open>GatherBuilder\<close>\<close>

text \<open>
  The three builders push lines onto one array: \<open>dial\<close> and \<open>gather\<close> hand the
  builder's own array \<^verbatim>\<open>this.twiml\<close> to the nested builder. The state of
  a builder is therefore that array, and every method takes it and returns it updated.
  The constructor pushes the declaration and the opening tag.
\<close>

definition new_TwiMLBuilder :: "string list" where
  \<open>new_TwiMLBuilder = [''<?xml version="1.0" encoding="UTF-8"?>'', ''<Response>'']\<close>

record say_options =
  say_voice :: "string option"
  say_language :: "string option"
  say_loop :: "int option"

record dial_options =
  dial_callerId :: "string option"
  dial_timeout :: "int option"
  dial_action :: "string option"
  dial_method :: "string option"

record gather_options =
  gather_input :: "string option"
  gather_timeout :: "int option"
  gather_numDigits :: "int option"
  gather_action :: "string option"
  gather_method :: "string option"

record record_options =
  record_maxLength :: "int option"
  record_transcribe :: "bool option"
  record_action :: "string option"
  record_method :: "string option"

record conference_options =
  conf_startConferenceOnEnter :: "bool option"
  conf_endConferenceOnExit :: "bool option"
  conf_muted :: "bool option"
  conf_waitUrl :: "string option"

definition TwiMLBuilder_say :: "string list \<Rightarrow> string \<Rightarrow> say_options option \<Rightarrow> string list" where
  "TwiMLBuilder_say twiml text options =
     (let attrs = str_attr ''voice'' (field options say_voice) @
                  str_attr ''language'' (field options say_language) @
                  num_attr ''loop'' (field options say_loop)
      in twiml @ [''  <Say'' @ tag_attrs attrs @ ''>'' @ text @ ''</Say>''])"

definition TwiMLBuilder_record :: "string list \<Rightarrow> record_options option \<Rightarrow> string list" where
  "TwiMLBuilder_record twiml options =
     (let attrs = num_attr ''maxLength'' (field options record_maxLength) @
                  truthy_bool_attr ''transcribe'' (field options record_transcribe) @
                  str_attr ''action'' (field options record_action) @
                  str_attr ''method'' (field options record_method)
      in twiml @ [''  <Record'' @ tag_attrs attrs @ '' />''])"

definition TwiMLBuilder_hangup :: "string list \<Rightarrow> string list" where
  "TwiMLBuilder_hangup twiml = twiml @ [''  <Hangup />'']"

text \<open>
  \<^verbatim>\<open>
  build(): string {
    this.twiml.push('</Response>');
    return this.twiml.join('\n');
  }
  \<close>
  The result is the updated array and the returned document.
\<close>

definition TwiMLBuilder_build :: "string list \<Rightarrow> string list \<times> string" where
  "TwiMLBuilder_build twiml =
     (let twiml' = twiml @ [''</Response>''] in (twiml', join twiml' ''\<newline>''))"

definition DialBuilder_startDial :: "string list \<Rightarrow> dial_options option \<Rightarrow> string list" where
  "DialBuilder_startDial twiml options =
     (let attrs = str_attr ''callerId'' (field options dial_callerId) @
                  num_attr ''timeout'' (field options dial_timeout) @
                  str_attr ''action'' (field options dial_action) @
                  str_attr ''method'' (field options dial_method)
      in twiml @ [''  <Dial'' @ tag_attrs attrs @ ''>''])"

definition DialBuilder_endDial :: "string list \<Rightarrow> string list" where
  "DialBuilder_endDial twiml = twiml @ [''  </Dial>'']"

definition DialBuilder_whatsapp :: "string list \<Rightarrow> dial_options option \<Rightarrow> string \<Rightarrow> string list" where
  "DialBuilder_whatsapp twiml options number =
     DialBuilder_endDial
       (DialBuilder_startDial twiml options @
        [''    <WhatsApp>'' @ replace_first number ''whatsapp:'' [] @ ''</WhatsApp>''])"

definition DialBuilder_client ::
  "string list \<Rightarrow> dial_options option \<Rightarrow> string \<Rightarrow> (string \<times> string) list option \<Rightarrow> string list" where
  "DialBuilder_client twiml options identity parameters =
     DialBuilder_endDial
       (DialBuilder_startDial twiml options @
        [''    <Client>'', ''      <Identity>'' @ identity @ ''</Identity>''] @
        (case parameters of
           None \<Rightarrow> []
         | Some entries \<Rightarrow> map (\<lambda>kv. ''      '' @ parameter_element kv) entries) @
        [''    </Client>''])"

definition DialBuilder_conference ::
  "string list \<Rightarrow> dial_options option \<Rightarrow> string \<Rightarrow> conference_options option \<Rightarrow> string list" where
  "DialBuilder_conference twiml options name copts =
     (let attrs = defined_bool_attr ''startConferenceOnEnter'' (field copts conf_startConferenceOnEnter) @
                  defined_bool_attr ''endConferenceOnExit'' (field copts conf_endConferenceOnExit) @
                  defined_bool_attr ''muted'' (field copts conf_muted) @
                  str_attr ''waitUrl'' (field copts conf_waitUrl)
      in DialBuilder_endDial
           (DialBuilder_startDial twiml options @
            [''    <Conference'' @ tag_attrs attrs @ ''>'' @ name @ ''</Conference>'']))"

definition GatherBuilder_startGather :: "string list \<Rightarrow> gather_options option \<Rightarrow> string list" where
  "GatherBuilder_startGather twiml options =
     (let attrs = str_attr ''input'' (field options gather_input) @
                  num_attr ''timeout'' (field options gather_timeout) @
                  num_attr ''numDigits'' (field options gather_numDigits) @
                  str_attr ''action'' (field options gather_action) @
                  str_attr ''method'' (field options gather_method)
      in twiml @ [''  <Gather'' @ tag_attrs attrs @ ''>''])"

definition GatherBuilder_endGather :: "string list \<Rightarrow> string list" where
  "GatherBuilder_endGather twiml = twiml @ [''  </Gather>'']"

definition GatherBuilder_say ::
  "string list \<Rightarrow> gather_options option \<Rightarrow> string \<Rightarrow> string option \<Rightarrow> string list" where
  "GatherBuilder_say twiml options text voice =
     GatherBuilder_endGather
       (GatherBuilder_startGather twiml options @
        [''    <Say'' @
         (case voice of None \<Rightarrow> [] | Some v \<Rightarrow> if v = [] then [] else '' '' @ attr ''voice'' v) @
         ''>'' @ text @ ''</Say>''])"

text \<open>
  A sequence of fluent-builder operations: each method call of \<open>TwiMLBuilder\<close>, and
  each method call of a nested builder together with the options the nested builder was
  created with.
\<close>

datatype builder_op =
    Say string "say_options option"
  | Record "record_options option"
  | Hangup
  | DialWhatsApp "dial_options option" string
  | DialClient "dial_options option" string "(string \<times> string) list option"
  | DialConference "dial_options option" string "conference_options option"
  | GatherSay "gather_options option" string "string option"
  | Build

fun apply_op :: "string list \<Rightarrow> builder_op \<Rightarrow> string list" where
  "apply_op twiml (Say text options) = TwiMLBuilder_say twiml text options"
| "apply_op twiml (Record options) = TwiMLBuilder_record twiml options"
| "apply_op twiml Hangup = TwiMLBuilder_hangup twiml"
| "apply_op twiml (DialWhatsApp options number) = DialBuilder_whatsapp twiml options number"
| "apply_op twiml (DialClient options identity parameters) =
     DialBuilder_client twiml options identity parameters"
| "apply_op twiml (DialConference options name copts) =
     DialBuilder_conference twiml options name copts"
| "apply_op twiml (GatherSay options text voice) = GatherBuilder_say twiml options text voice"
| "apply_op twiml Build = fst (TwiMLBuilder_build twiml)"

definition run_ops :: "builder_op list \<Rightarrow> string list" where
  "run_ops ops = foldl apply_op new_TwiMLBuilder ops"

subsection \<open>\<open>TwiMLTemplates.createConference\<close> and \<open>TwiMLTemplates.joinConference\<close>\<close>

text \<open>
  Both functions are a single template literal. The text of \<open>createConference\<close>, from
  the opening backquote to the closing one, is:
  \<^verbatim>\<open>
  <?xml version="1.0" encoding="UTF-8"?>
  <Response>
    <Say voice="Polly.Joanna">Joining conference room</Say>
    <Dial>
      <Conference 
        startConferenceOnEnter="${params.moderator ? 'true' : 'false}"
        endConferenceOnExit="${params.moderator ? 'true' : 'false'}"
        muted="${params.muted ? 'true' : 'false'}"
        waitUrl="${params.waitUrl || ''}"
        statusCallback="/conference-events"
        statusCallbackEvent="start end join leave mute hold"
        statusCallbackMethod="POST"
      >
        ${params.conferenceName}
      </Conference>
    </Dial>
  </Response>
  \<close>
  In the first substitution the string literal that starts at \<^verbatim>\<open>'false\<close> is not closed
  before the line ends, so what the function computes is decided by how the language
  reads this text. The text is kept as it stands in the source (with the closing
  backquote, \<open>CHR 0x60\<close>), and the reading of a template literal is modelled below for
  the constructs these two templates use: template characters, \<^verbatim>\<open>${\<close> ... \<^verbatim>\<open>}\<close>
  substitutions, and single- and double-quoted string literals inside a substitution,
  which may not hold a line terminator.
\<close>

definition createConference_template :: string where
  \<open>createConference_template =
     ''<?xml version="1.0" encoding="UTF-8"?>\<newline>'' @
     ''<Response>\<newline>'' @
     ''  <Say voice="Polly.Joanna">Joining conference room</Say>\<newline>'' @
     ''  <Dial>\<newline>'' @
     ''    <Conference \<newline>'' @
     ''      startConferenceOnEnter="${params.moderator ? 'true' : 'false}"\<newline>'' @
     ''      endConferenceOnExit="${params.moderator ? 'true' : 'false'}"\<newline>'' @
     ''      muted="${params.muted ? 'true' : 'false'}"\<newline>'' @
     ''      waitUrl="${params.waitUrl || '' @ [CHR 0x27, CHR 0x27] @ ''}"\<newline>'' @
     ''      statusCallback="/conference-events"\<newline>'' @
     ''      statusCallbackEvent="start end join leave mute hold"\<newline>'' @
     ''      statusCallbackMethod="POST"\<newline>'' @
     ''    >\<newline>'' @
     ''      ${params.conferenceName}\<newline>'' @
     ''    </Conference>\<newline>'' @
     ''  </Dial>\<newline>'' @
     ''</Response>'' @ [CHR 0x60]\<close>

definition joinConference_template :: string where
  \<open>joinConference_template =
     ''<?xml version="1.0" encoding="UTF-8"?>\<newline>'' @
     ''<Response>\<newline>'' @
     ''  <Say voice="Polly.Joanna">Connecting to conference</Say>\<newline>'' @
     ''  <Dial>\<newline>'' @
     ''    <Conference \<newline>'' @
     ''      muted="${params.muted ? 'true' : 'false'}"\<newline>'' @
     ''      statusCallback="/conference-events"\<newline>'' @
     ''      statusCallbackEvent="join leave mute hold"\<newline>'' @
     ''      statusCallbackMethod="POST"\<newline>'' @
     ''    >\<newline>'' @
     ''      ${params.conferenceName}\<newline>'' @
     ''    </Conference>\<newline>'' @
     ''  </Dial>\<newline>'' @
     ''</Response>'' @ [CHR 0x60]\<close>

datatype template_part = Chars string | Substitution string

datatype syntax_error = UnterminatedStringLiteral | UnterminatedTemplate

datatype scan_mode = InTemplate | InSubstitution | InString char

text \<open>
  \<open>scan mode acc cs\<close> reads the characters \<open>cs\<close>; \<open>acc\<close> is the text of the part
  being read. In a template, a backquote ends the literal and \<^verbatim>\<open>${\<close> starts a
  substitution; in a substitution, \<^verbatim>\<open>}\<close> ends it and a quote starts a string literal;
  in a string literal, the same quote ends it, and a line feed or the end of the text
  before that is a syntax error.
\<close>

fun scan :: "scan_mode \<Rightarrow> string \<Rightarrow> string \<Rightarrow> syntax_error + template_part list" where
  "scan InTemplate acc [] = Inl UnterminatedTemplate"
| "scan InTemplate acc (c # cs) =
     (if c = CHR 0x60 then Inr [Chars acc]
      else if c = CHR ''$'' \<and> startsWith cs ''{'' then
        (case scan InSubstitution [] (drop 1 cs) of
           Inl e \<Rightarrow> Inl e
         | Inr parts \<Rightarrow> Inr (Chars acc # parts))
      else scan InTemplate (acc @ [c]) cs)"
| "scan InSubstitution acc [] = Inl UnterminatedTemplate"
| "scan InSubstitution acc (c # cs) =
     (if c = CHR ''}'' then
        (case scan InTemplate [] cs of
           Inl e \<Rightarrow> Inl e
         | Inr parts \<Rightarrow> Inr (Substitution acc # parts))
      else if c = CHR 0x27 \<or> c = CHR 0x22 then scan (InString c) (acc @ [c]) cs
      else scan InSubstitution (acc @ [c]) cs)"
| "scan (InString q) acc [] = Inl UnterminatedStringLiteral"
| "scan (InString q) acc (c # cs) =
     (if c = q then scan InSubstitution (acc @ [c]) cs
      else if c = CHR 0x0A then Inl UnterminatedStringLiteral
      else scan (InString q) (acc @ [c]) cs)"

definition scan_template :: "string \<Rightarrow> syntax_error + template_part list" where
  "scan_template source = scan InTemplate [] source"

fun substitutions :: "template_part list \<Rightarrow> string list" where
  "substitutions [] = []"
| "substitutions (Chars s # parts) = substitutions parts"
| "substitutions (Substitution e # parts) = e # substitutions parts"

section \<open>JavaScript \<open>Map\<close>\<close>

text \<open>
  A \<open>Map\<close> keeps its entries in insertion order and holds a key once: \<open>set\<close> on a
  key that is present replaces the value where it stands, \<open>set\<close> on a new key appends,
  \<open>delete\<close> removes the entry. It is modelled as an association list.
\<close>

definition Map_get :: "('k \<times> 'v) list \<Rightarrow> 'k \<Rightarrow> 'v option" where
  "Map_get m k = map_of m k"

fun Map_set :: "('k \<times> 'v) list \<Rightarrow> 'k \<Rightarrow> 'v \<Rightarrow> ('k \<times> 'v) list" where
  "Map_set [] k v = [(k, v)]"
| "Map_set ((k', v') # m) k v =
     (if k' = k then (k, v) # m else (k', v') # Map_set m k v)"

definition Map_delete :: "('k \<times> 'v) list \<Rightarrow> 'k \<Rightarrow> ('k \<times> 'v) list" where
  "Map_delete m k = filter (\<lambda>kv. fst kv \<noteq> k) m"

definition Map_keys :: "('k \<times> 'v) list \<Rightarrow> 'k list" where
  "Map_keys m = map fst m"

section \<open>The conference registry of the server (\<open>activeConferences\<close>)\<close>

text \<open>
  \<^verbatim>\<open>
  const activeConferences = new Map<string, {
    id: string; participants: string[]; moderator?: string; createdAt: Date; }>();
  \<close>
  The field \<open>id\<close> is named \<open>conference_id\<close> here; a \<open>Date\<close> is a number of
  milliseconds. In the handlers below \<open>reg\<close> is the content of \<open>activeConferences\<close>.
\<close>

record conference =
  conference_id :: string
  participants :: "string list"
  moderator :: "string option"
  createdAt :: nat

type_synonym registry = "(string \<times> conference) list"

text \<open>
  \<^verbatim>\<open>
  app.post('/voice/conference/create', (req, res) => {
    const { ConferenceName, Moderator } = req.body;
    activeConferences.set(ConferenceName, {
      id: ConferenceName,
      participants: [],
      moderator: Moderator === 'true' ? req.body.From : undefined,
      createdAt: new Date()
    });
    ...
  \<close>
  The handler's effect on the registry; \<open>now\<close> is the value of \<^verbatim>\<open>new Date()\<close>. A
  field missing from the request body is \<open>None\<close>. The handler has no failing branch.
\<close>

definition voice_conference_create ::
  "registry \<Rightarrow> string \<Rightarrow> string option \<Rightarrow> string option \<Rightarrow> nat \<Rightarrow> registry" where
  "voice_conference_create reg ConferenceName Moderator From now =
     Map_set reg ConferenceName
       \<lparr>conference_id = ConferenceName,
        participants = [],
        moderator = (if Moderator = Some ''true'' then From else None),
        createdAt = now\<rparr>"

text \<open>
  \<^verbatim>\<open>
  app.post('/voice/conference/join', (req, res) => {
    const { ConferenceName, From } = req.body;
    const conference = activeConferences.get(ConferenceName);
    if (conference && !conference.participants.includes(From)) {
      conference.participants.push(From);
    }
    ...
  \<close>
\<close>

definition voice_conference_join :: "registry \<Rightarrow> string \<Rightarrow> string \<Rightarrow> registry" where
  "voice_conference_join reg ConferenceName From =
     (case Map_get reg ConferenceName of
        None \<Rightarrow> reg
      | Some conference \<Rightarrow>
          if From \<notin> set (participants conference)
          then Map_set reg ConferenceName
                 (conference\<lparr>participants := participants conference @ [From]\<rparr>)
          else reg)"

text \<open>
  \<^verbatim>\<open>
  app.post('/conference-events', (req, res) => {
    switch (StatusCallbackEvent) {
      case 'conference-end': activeConferences.delete(FriendlyName); break;
      ...                    // every other case only logs
  \<close>
\<close>

definition conference_events :: "registry \<Rightarrow> string \<Rightarrow> string \<Rightarrow> registry" where
  "conference_events reg StatusCallbackEvent FriendlyName =
     (if StatusCallbackEvent = ''conference-end''
      then Map_delete reg FriendlyName
      else reg)"

text \<open>
  The requests that touch the registry, and the registry after a sequence of them,
  starting from the empty \<open>Map\<close> the module creates.
\<close>

datatype request =
    ConferenceCreate string "string option" "string option" nat
  | ConferenceJoin string string
  | ConferenceEvent string string

fun handle :: "registry \<Rightarrow> request \<Rightarrow> registry" where
  "handle reg (ConferenceCreate ConferenceName Moderator From now) =
     voice_conference_create reg ConferenceName Moderator From now"
| "handle reg (ConferenceJoin ConferenceName From) = voice_conference_join reg ConferenceName From"
| "handle reg (ConferenceEvent StatusCallbackEvent FriendlyName) =
     conference_events reg StatusCallbackEvent FriendlyName"

definition serve :: "request list \<Rightarrow> registry" where
  "serve requests = foldl handle [] requests"

section \<open>The client wrapper (\<open>WhatsAppVoice\<close> and \<open>ConferenceSession\<close>)\<close>

subsection \<open>The device and its calls\<close>

text \<open>
  The wrapper drives a \<open>Device\<close> and the \<open>Call\<close> objects it returns; both are
  imported from \<^verbatim>\<open>./twilio\<close>, which is not among the sources. Calls are objects
  shared by reference, so they live in a store and are named by their index in it.
  Every command the wrapper sends is appended to a log, so that "no command was sent"
  can be stated. The \<^verbatim>\<open>await\<close>s of the source are run one after the other.
\<close>

text \<open>
  Modelled from the spec: the call handle (\<open>Call\<close> is not among the sources). It has
  an identifier issued by the platform, a mute flag that mirrors the last mute command
  sent, and a state, of which only "disconnected or not" is kept.
\<close>

record call_handle =
  CallSid :: string
  muted :: bool
  disconnected :: bool

text \<open>
  Modelled from the spec: the commands the wrapper can send through the device and its
  calls (call-initiation, disconnect, mute), and the state of the device: the calls it
  has created and the log of the commands sent, oldest first.
\<close>

datatype sdk_command =
    Connect "(string \<times> string) list"
  | Disconnect nat
  | Mute nat bool

record sdk =
  calls :: "call_handle list"
  commands :: "sdk_command list"

text \<open>What the source throws: \<^verbatim>\<open>new Error(message)\<close>, or the platform's own error.\<close>

datatype js_error = Error string | UpstreamError string

text \<open>
  Modelled from the spec: the telephony platform behind \<open>device.connect\<close> (not among
  the sources). Given the commands sent so far, the last of which is the connect request,
  it fails with an opaque error or issues the identifier of the new call.
\<close>

type_synonym platform = "sdk_command list \<Rightarrow> string + string"

text \<open>
  Modelled from the spec: \<open>device.connect(options)\<close> (\<open>Device\<close> is not among the
  sources). Call-initiation: the request is sent; it is rejected with the platform's
  error, or a new call handle, not muted and not disconnected, is created and returned.
\<close>

definition Device_connect ::
  "platform \<Rightarrow> sdk \<Rightarrow> (string \<times> string) list \<Rightarrow> (js_error + nat) \<times> sdk" where
  "Device_connect platform s params =
     (let log = commands s @ [Connect params] in
      case platform log of
        Inl e \<Rightarrow> (Inl (UpstreamError e), s\<lparr>commands := log\<rparr>)
      | Inr sid \<Rightarrow>
          (Inr (length (calls s)),
           s\<lparr>calls := calls s @ [\<lparr>CallSid = sid, muted = False, disconnected = False\<rparr>],
             commands := log\<rparr>))"

text \<open>
  Modelled from the spec: \<open>call.mute(bool)\<close> (\<open>Call\<close> is not among the sources). The
  command is sent and the flag is updated at once; \<open>call.mute()\<close> is \<open>call.mute(true)\<close>.
\<close>

definition Call_mute :: "sdk \<Rightarrow> nat \<Rightarrow> bool \<Rightarrow> sdk" where
  "Call_mute s c b =
     s\<lparr>calls := list_update (calls s) c ((calls s ! c)\<lparr>muted := b\<rparr>),
       commands := commands s @ [Mute c b]\<rparr>"

text \<open>
  Modelled from the spec: \<open>call.disconnect()\<close> (\<open>Call\<close> is not among the sources).
\<close>

definition Call_disconnect :: "sdk \<Rightarrow> nat \<Rightarrow> sdk" where
  "Call_disconnect s c =
     s\<lparr>calls := list_update (calls s) c ((calls s ! c)\<lparr>disconnected := True\<rparr>),
       commands := commands s @ [Disconnect c]\<rparr>"

subsection \<open>\<open>ConferenceSession\<close>\<close>

text \<open>
  \<^verbatim>\<open>
  private conferenceId: string;
  private whatsappSender: string;
  private participants: Map<string, Call> = new Map();
  private conferenceCall?: Call;
  \<close>
  The field \<open>participants\<close> is named \<open>session_participants\<close> here.
\<close>

record conference_session =
  conferenceId :: string
  whatsappSender :: string
  session_participants :: "(string \<times> nat) list"
  conferenceCall :: "nat option"

definition new_ConferenceSession :: "string \<Rightarrow> string \<Rightarrow> conference_session" where
  "new_ConferenceSession cid sender =
     \<lparr>conferenceId = cid, whatsappSender = sender, session_participants = [],
      conferenceCall = None\<rparr>"

definition invalid_number_message :: string where
  \<open>invalid_number_message = ''Invalid WhatsApp number format. Must start with "whatsapp:"''\<close>

text \<open>
  \<^verbatim>\<open>
  async addParticipant(whatsappNumber: string): Promise<void> {
    try {
      if (!whatsappNumber.startsWith('whatsapp:')) {
        throw new Error('Invalid WhatsApp number format. Must start with "whatsapp:"');
      }
      const participantCallOptions = { params: { To: whatsappNumber,
          From: this.whatsappSender, ConferenceName: this.conferenceId,
          Action: 'join_conference' } };
      const participantCall = await this.device.connect(participantCallOptions);
      this.participants.set(whatsappNumber, participantCall);
    } catch (error) { console.error(...); throw error; }
  }
  \<close>
\<close>

definition ConferenceSession_addParticipant ::
  "platform \<Rightarrow> conference_session \<Rightarrow> sdk \<Rightarrow> string \<Rightarrow> (js_error + unit) \<times> conference_session \<times> sdk" where
  "ConferenceSession_addParticipant platform session s whatsappNumber =
     (if \<not> startsWith whatsappNumber ''whatsapp:''
      then (Inl (Error invalid_number_message), session, s)
      else
        (case Device_connect platform s
                [(''To'', whatsappNumber), (''From'', whatsappSender session),
                 (''ConferenceName'', conferenceId session), (''Action'', ''join_conference'')] of
           (Inl e, s') \<Rightarrow> (Inl e, session, s')
         | (Inr participantCall, s') \<Rightarrow>
             (Inr (),
              session\<lparr>session_participants :=
                Map_set (session_participants session) whatsappNumber participantCall\<rparr>,
              s')))"

text \<open>
  The loop of \<open>initialize\<close>:
  \<^verbatim>\<open>for (const participant of options.participants) { await this.addParticipant(participant); }\<close>
\<close>

fun addParticipants ::
  "platform \<Rightarrow> conference_session \<Rightarrow> sdk \<Rightarrow> string list \<Rightarrow> (js_error + unit) \<times> conference_session \<times> sdk" where
  "addParticipants platform session s [] = (Inr (), session, s)"
| "addParticipants platform session s (participant # rest) =
     (case ConferenceSession_addParticipant platform session s participant of
        (Inl e, session', s') \<Rightarrow> (Inl e, session', s')
      | (Inr u, session', s') \<Rightarrow> addParticipants platform session' s' rest)"

record ConferenceOptions =
  opt_conferenceId :: string
  opt_participants :: "string list"
  opt_moderator :: "bool option"
  opt_muted :: "bool option"
  opt_hold :: "bool option"

text \<open>
  \<^verbatim>\<open>
  async initialize(options: ConferenceOptions): Promise<void> {
    try {
      const conferenceCallOptions = { params: { ConferenceName: this.conferenceId,
          From: this.whatsappSender, Action: 'create_conference',
          Moderator: options.moderator ? 'true' : 'false' } };
      this.conferenceCall = await this.device.connect(conferenceCallOptions);
      for (const participant of options.participants) { await this.addParticipant(participant); }
    } catch (error) { console.error(...); throw error; }
  }
  \<close>
\<close>

definition ConferenceSession_initialize ::
  "platform \<Rightarrow> conference_session \<Rightarrow> sdk \<Rightarrow> ConferenceOptions \<Rightarrow> (js_error + unit) \<times> conference_session \<times> sdk" where
  "ConferenceSession_initialize platform session s options =
     (case Device_connect platform s
             [(''ConferenceName'', conferenceId session), (''From'', whatsappSender session),
              (''Action'', ''create_conference''),
              (''Moderator'', if opt_moderator options = Some True then ''true'' else ''false'')] of
        (Inl e, s') \<Rightarrow> (Inl e, session, s')
      | (Inr c, s') \<Rightarrow>
          addParticipants platform (session\<lparr>conferenceCall := Some c\<rparr>) s' (opt_participants options))"

text \<open>
  \<^verbatim>\<open>
  async removeParticipant(whatsappNumber: string): Promise<void> {
    const call = this.participants.get(whatsappNumber);
    if (call) {
      call.disconnect();
      this.participants.delete(whatsappNumber);
    }
  }
  \<close>
\<close>

definition ConferenceSession_removeParticipant ::
  "conference_session \<Rightarrow> sdk \<Rightarrow> string \<Rightarrow> conference_session \<times> sdk" where
  "ConferenceSession_removeParticipant session s whatsappNumber =
     (case Map_get (session_participants session) whatsappNumber of
        None \<Rightarrow> (session, s)
      | Some c \<Rightarrow>
          (session\<lparr>session_participants := Map_delete (session_participants session) whatsappNumber\<rparr>,
           Call_disconnect s c))"

text \<open>
  \<^verbatim>\<open>
  async muteParticipant(whatsappNumber: string): Promise<void> {
    const call = this.participants.get(whatsappNumber);
    if (call) { call.mute(); }
  }
  async unmuteParticipant(whatsappNumber: string): Promise<void> {
    const call = this.participants.get(whatsappNumber);
    if (call) { call.mute(false); }
  }
  \<close>
\<close>

definition ConferenceSession_muteParticipant ::
  "conference_session \<Rightarrow> sdk \<Rightarrow> string \<Rightarrow> conference_session \<times> sdk" where
  "ConferenceSession_muteParticipant session s whatsappNumber =
     (case Map_get (session_participants session) whatsappNumber of
        None \<Rightarrow> (session, s)
      | Some c \<Rightarrow> (session, Call_mute s c True))"

definition ConferenceSession_unmuteParticipant ::
  "conference_session \<Rightarrow> sdk \<Rightarrow> string \<Rightarrow> conference_session \<times> sdk" where
  "ConferenceSession_unmuteParticipant session s whatsappNumber =
     (case Map_get (session_participants session) whatsappNumber of
        None \<Rightarrow> (session, s)
      | Some c \<Rightarrow> (session, Call_mute s c False))"

definition getParticipants :: "conference_session \<Rightarrow> string list" where
  "getParticipants session = Map_keys (session_participants session)"

definition getParticipantCount :: "conference_session \<Rightarrow> nat" where
  "getParticipantCount session = length (session_participants session)"

subsection \<open>\<open>WhatsAppVoice\<close>\<close>

text \<open>
  \<^verbatim>\<open>
  private config: WhatsAppVoiceConfig;          // of which whatsappSender is used
  private activeCalls: Map<string, Call> = new Map();
  private activeConferences: Map<string, ConferenceSession> = new Map();
  \<close>
\<close>

record WhatsAppVoice =
  config_whatsappSender :: string
  activeCalls :: "(string \<times> nat) list"
  activeConferences :: "(string \<times> conference_session) list"

record WhatsAppCallOptions =
  call_to :: string
  call_from :: "string option"
  call_customParameters :: "(string \<times> string) list option"

text \<open>
  \<^verbatim>\<open>{ To: options.to, From: options.from || this.config.whatsappSender,
     ...options.customParameters }\<close>: a spread property replaces a property of the same
  name and is added at the end otherwise.
\<close>

definition call_params :: "WhatsAppVoice \<Rightarrow> WhatsAppCallOptions \<Rightarrow> (string \<times> string) list" where
  "call_params this options =
     foldl (\<lambda>obj kv. Map_set obj (fst kv) (snd kv))
       [(''To'', call_to options),
        (''From'', or_default (call_from options) (config_whatsappSender this))]
       (case call_customParameters options of None \<Rightarrow> [] | Some entries \<Rightarrow> entries)"

text \<open>
  \<^verbatim>\<open>
  async makeCall(options: WhatsAppCallOptions): Promise<Call> {
    try {
      if (!options.to.startsWith('whatsapp:')) {
        throw new Error('Invalid WhatsApp number format. Must start with "whatsapp:"');
      }
      const callOptions = { params: { ... } };
      const call = await this.device.connect(callOptions);
      this.activeCalls.set(call.parameters.CallSid, call);
      return call;
    } catch (error) { console.error(...); throw error; }
  }
  \<close>
\<close>

definition makeCall ::
  "platform \<Rightarrow> WhatsAppVoice \<Rightarrow> sdk \<Rightarrow> WhatsAppCallOptions \<Rightarrow> (js_error + nat) \<times> WhatsAppVoice \<times> sdk" where
  "makeCall platform this s options =
     (if \<not> startsWith (call_to options) ''whatsapp:''
      then (Inl (Error invalid_number_message), this, s)
      else
        (case Device_connect platform s (call_params this options) of
           (Inl e, s') \<Rightarrow> (Inl e, this, s')
         | (Inr c, s') \<Rightarrow>
             (Inr c,
              this\<lparr>activeCalls := Map_set (activeCalls this) (CallSid (calls s' ! c)) c\<rparr>,
              s')))"

text \<open>
  \<^verbatim>\<open>
  async createConference(options: ConferenceOptions): Promise<ConferenceSession> {
    try {
      const conference = new ConferenceSession(options.conferenceId, this.device,
                                               this.config.whatsappSender);
      await conference.initialize(options);
      this.activeConferences.set(options.conferenceId, conference);
      return conference;
    } catch (error) { console.error(...); throw error; }
  }
  \<close>
\<close>

definition createConference ::
  "platform \<Rightarrow> WhatsAppVoice \<Rightarrow> sdk \<Rightarrow> ConferenceOptions \<Rightarrow>
     (js_error + conference_session) \<times> WhatsAppVoice \<times> sdk" where
  "createConference platform this s options =
     (case ConferenceSession_initialize platform
             (new_ConferenceSession (opt_conferenceId options) (config_whatsappSender this))
             s options of
        (Inl e, conference, s') \<Rightarrow> (Inl e, this, s')
      | (Inr u, conference, s') \<Rightarrow>
          (Inr conference,
           this\<lparr>activeConferences :=
             Map_set (activeConferences this) (opt_conferenceId options) conference\<rparr>,
           s'))"

text \<open>
  \<^verbatim>\<open>
  async joinConference(conferenceId: string, participant: string): Promise<void> {
    const conference = this.activeConferences.get(conferenceId);
    if (!conference) { throw new Error(`Conference ${conferenceId} not found`); }
    await conference.addParticipant(participant);
  }
  \<close>
  The session is an object held by the \<open>Map\<close>; its update is written back.
\<close>

definition joinConference ::
  "platform \<Rightarrow> WhatsAppVoice \<Rightarrow> sdk \<Rightarrow> string \<Rightarrow> string \<Rightarrow> (js_error + unit) \<times> WhatsAppVoice \<times> sdk" where
  "joinConference platform this s cid participant =
     (case Map_get (activeConferences this) cid of
        None \<Rightarrow> (Inl (Error (''Conference '' @ cid @ '' not found'')), this, s)
      | Some conference \<Rightarrow>
          (case ConferenceSession_addParticipant platform conference s participant of
             (r, conference', s') \<Rightarrow>
               (r, this\<lparr>activeConferences := Map_set (activeConferences this) cid conference'\<rparr>, s')))"

section \<open>Properties of the validation utilities\<close>

lemma startsWith_plus: "startsWith s ''+'' \<Longrightarrow> \<exists>r. s = CHR ''+'' # r"
  by (cases s) (auto simp: startsWith_def)

lemma strip_whatsapp_prefixed: "strip_whatsapp (''whatsapp:'' @ s) = s"
  by (simp add: strip_whatsapp_def startsWith_def)

lemma formatWhatsAppNumber_shape:
  "\<exists>r. formatWhatsAppNumber a = ''whatsapp:'' @ CHR ''+'' # r"
proof (cases "startsWith (strip_whatsapp a) ''+''")
  case True
  then obtain r where "strip_whatsapp a = CHR ''+'' # r"
    using startsWith_plus by blast
  with True have "formatWhatsAppNumber a = ''whatsapp:'' @ CHR ''+'' # r"
    unfolding formatWhatsAppNumber_def Let_def by simp
  then show ?thesis by blast
next
  case False
  then have "formatWhatsAppNumber a = ''whatsapp:'' @ CHR ''+'' # strip_whatsapp a"
    unfolding formatWhatsAppNumber_def Let_def by simp
  then show ?thesis by blast
qed

lemma formatWhatsAppNumber_canonical:
  "formatWhatsAppNumber (''whatsapp:'' @ CHR ''+'' # r) = ''whatsapp:'' @ CHR ''+'' # r"
proof -
  have "startsWith (CHR ''+'' # r) ''+''"
    by (simp add: startsWith_def)
  then show ?thesis
    unfolding formatWhatsAppNumber_def Let_def strip_whatsapp_prefixed by simp
qed

lemma startsWith_iff: "startsWith s p \<longleftrightarrow> (\<exists>r. s = p @ r)"
  unfolding startsWith_def by (metis append_take_drop_id append_eq_conv_conj)

lemma isValidWhatsAppNumber_shape:
  "isValidWhatsAppNumber c \<Longrightarrow> \<exists>r. c = ''whatsapp:'' @ CHR ''+'' # r"
proof -
  assume "isValidWhatsAppNumber c"
  then have "startsWith c ''whatsapp:+''"
    unfolding isValidWhatsAppNumber_def by blast
  then obtain r where "c = ''whatsapp:+'' @ r"
    unfolding startsWith_iff by blast
  then show ?thesis by auto
qed

text \<open>
  Claim C6. Formatting is idempotent on every string, and it returns unchanged every
  address that is already canonical: every address accepted by
  \<open>isValidWhatsAppNumber\<close>, and more generally every string that begins with the
  channel prefix followed by \<open>+\<close>.
\<close>

theorem formatWhatsAppNumber_idempotent:
  "formatWhatsAppNumber (formatWhatsAppNumber a) = formatWhatsAppNumber a \<and>
   (isValidWhatsAppNumber c \<longrightarrow> formatWhatsAppNumber c = c) \<and>
   formatWhatsAppNumber (''whatsapp:+'' @ r) = ''whatsapp:+'' @ r"
proof (intro conjI impI)
  obtain q where q: "formatWhatsAppNumber a = ''whatsapp:'' @ CHR ''+'' # q"
    using formatWhatsAppNumber_shape by blast
  show "formatWhatsAppNumber (formatWhatsAppNumber a) = formatWhatsAppNumber a"
    unfolding q by (rule formatWhatsAppNumber_canonical)
next
  assume "isValidWhatsAppNumber c"
  then obtain q where "c = ''whatsapp:'' @ CHR ''+'' # q"
    using isValidWhatsAppNumber_shape by blast
  then show "formatWhatsAppNumber c = c"
    using formatWhatsAppNumber_canonical by simp
next
  show "formatWhatsAppNumber (''whatsapp:+'' @ r) = ''whatsapp:+'' @ r"
    using formatWhatsAppNumber_canonical [of r] by simp
qed

theorem formatWhatsAppNumber_idempotent_witness:
  "formatWhatsAppNumber (formatWhatsAppNumber ''14155552671'') = ''whatsapp:+14155552671'' \<and>
   isValidWhatsAppNumber ''whatsapp:+14155552671'' \<and>
   formatWhatsAppNumber ''whatsapp:+14155552671'' = ''whatsapp:+14155552671''"
proof -
  have v: "isValidWhatsAppNumber ''whatsapp:+14155552671''"
    by (simp add: isValidWhatsAppNumber_def startsWith_def is_digit_def is_digit_1_9_def)
  have f: "formatWhatsAppNumber ''14155552671'' = ''whatsapp:+14155552671''"
    by (simp add: formatWhatsAppNumber_def strip_whatsapp_def startsWith_def)
  from formatWhatsAppNumber_idempotent [of "''14155552671''" "''whatsapp:+14155552671''" "[]"] v f
  show ?thesis by simp
qed

lemma is_digit_1_9_iff: "is_digit_1_9 d \<longleftrightarrow> is_digit d \<and> d \<noteq> CHR ''0''"
  by (auto simp: is_digit_1_9_def is_digit_def)

lemma drop_whatsapp_plus: "drop 10 (''whatsapp:+'' @ r) = r"
  by simp

text \<open>
  Claim C5 (amended). A string is accepted exactly when it is the channel prefix, then
  \<open>+\<close>, then 2 to 15 decimal digits of which the first is not \<open>0\<close>. The claim
  as written (any digits) fails for a leading zero: the expression asks for
  \<^verbatim>\<open>[1-9]\<close> in the first place.
\<close>

theorem isValidWhatsAppNumber_iff:
  "isValidWhatsAppNumber s \<longleftrightarrow>
     (\<exists>ds. s = ''whatsapp:'' @ ''+'' @ ds \<and> 2 \<le> length ds \<and> length ds \<le> 15 \<and>
           list_all is_digit ds \<and> hd ds \<noteq> CHR ''0'')"
proof
  assume v: "isValidWhatsAppNumber s"
  then have "startsWith s ''whatsapp:+''"
    unfolding isValidWhatsAppNumber_def by blast
  then obtain r where r: "s = ''whatsapp:+'' @ r"
    unfolding startsWith_iff by blast
  have dr: "drop 10 s = r"
    unfolding r by (rule drop_whatsapp_plus)
  from v have "case r of [] \<Rightarrow> False
      | d # ds \<Rightarrow> is_digit_1_9 d \<and> 1 \<le> length ds \<and> length ds \<le> 14 \<and> list_all is_digit ds"
    unfolding isValidWhatsAppNumber_def dr by blast
  then obtain d ds where rd: "r = d # ds" and d: "is_digit_1_9 d"
      and l: "1 \<le> length ds" "length ds \<le> 14" and a: "list_all is_digit ds"
    by (cases r) auto
  from d have "is_digit d" "d \<noteq> CHR ''0''"
    by (simp_all add: is_digit_1_9_iff)
  with rd l a have "2 \<le> length r \<and> length r \<le> 15 \<and> list_all is_digit r \<and> hd r \<noteq> CHR ''0''"
    by simp
  moreover from r have "s = ''whatsapp:'' @ ''+'' @ r" by simp
  ultimately show "\<exists>ds. s = ''whatsapp:'' @ ''+'' @ ds \<and> 2 \<le> length ds \<and> length ds \<le> 15 \<and>
           list_all is_digit ds \<and> hd ds \<noteq> CHR ''0''"
    by blast
next
  assume "\<exists>ds. s = ''whatsapp:'' @ ''+'' @ ds \<and> 2 \<le> length ds \<and> length ds \<le> 15 \<and>
           list_all is_digit ds \<and> hd ds \<noteq> CHR ''0''"
  then obtain r where r: "s = ''whatsapp:+'' @ r" and l: "2 \<le> length r" "length r \<le> 15"
      and a: "list_all is_digit r" and h: "hd r \<noteq> CHR ''0''"
    by auto
  from l obtain d ds where rd: "r = d # ds"
    by (cases r) auto
  from rd a h have "is_digit_1_9 d" "list_all is_digit ds"
    by (simp_all add: is_digit_1_9_iff)
  moreover from rd l have "1 \<le> length ds" "length ds \<le> 14"
    by simp_all
  moreover have "startsWith s ''whatsapp:+''"
    unfolding startsWith_iff using r by blast
  moreover have "drop 10 s = d # ds"
    unfolding r drop_whatsapp_plus by (rule rd)
  ultimately show "isValidWhatsAppNumber s"
    unfolding isValidWhatsAppNumber_def by simp
qed

theorem isValidWhatsAppNumber_iff_witness:
  "isValidWhatsAppNumber ''whatsapp:+14155552671'' \<and> \<not> isValidWhatsAppNumber ''whatsapp:+1''"
proof -
  have "\<exists>ds. ''whatsapp:+14155552671'' = ''whatsapp:'' @ ''+'' @ ds \<and> 2 \<le> length ds \<and>
      length ds \<le> 15 \<and> list_all is_digit ds \<and> hd ds \<noteq> CHR ''0''"
    by (rule exI [of _ "''14155552671''"]) (simp add: is_digit_def)
  then have a: "isValidWhatsAppNumber ''whatsapp:+14155552671''"
    using isValidWhatsAppNumber_iff [of "''whatsapp:+14155552671''"] by blast
  have "\<not> (\<exists>ds. ''whatsapp:+1'' = ''whatsapp:'' @ ''+'' @ ds \<and> 2 \<le> length ds \<and>
      length ds \<le> 15 \<and> list_all is_digit ds \<and> hd ds \<noteq> CHR ''0'')"
    by auto
  then have b: "\<not> isValidWhatsAppNumber ''whatsapp:+1''"
    using isValidWhatsAppNumber_iff [of "''whatsapp:+1''"] by blast
  from a b show ?thesis by blast
qed

text \<open>
  The string \<^verbatim>\<open>whatsapp:+0123456789\<close> is the channel prefix, \<open>+\<close> and ten digits,
  and it is rejected.
\<close>

theorem isValidWhatsAppNumber_leading_zero_counterexample:
  "''whatsapp:+0123456789'' = ''whatsapp:'' @ ''+'' @ ''0123456789'' \<and>
   2 \<le> length ''0123456789'' \<and> length ''0123456789'' \<le> 15 \<and>
   list_all is_digit ''0123456789'' \<and>
   \<not> isValidWhatsAppNumber ''whatsapp:+0123456789''"
  by (simp add: isValidWhatsAppNumber_def startsWith_def is_digit_def is_digit_1_9_def)

section \<open>Properties of the builders\<close>

lemma join_snoc: "xs \<noteq> [] \<Longrightarrow> join (xs @ [a]) sep = join xs sep @ sep @ a"
  by (induction xs sep rule: join.induct) auto

lemma sublist_join: "x \<in> set xs \<Longrightarrow> sublist x (join xs sep)"
proof (induction xs sep rule: join.induct)
  case (1 sep)
  then show ?case by simp
next
  case (2 x' sep)
  then show ?case by simp
next
  case (3 a b ys sep)
  show ?case
  proof (cases "x = a")
    case True
    then show ?thesis by (simp add: sublist_append_rightI)
  next
    case False
    with 3 have "sublist x (join (b # ys) sep)" by simp
    moreover have "sublist (join (b # ys) sep) ((a @ sep) @ join (b # ys) sep)"
      by (rule sublist_append_leftI)
    ultimately have "sublist x ((a @ sep) @ join (b # ys) sep)"
      by (rule sublist_order.order_trans)
    then show ?thesis by simp
  qed
qed

lemma count_closing_apply_op:
  "count_list (apply_op twiml op) ''</Response>'' =
     count_list twiml ''</Response>'' + (if op = Build then 1 else 0)"
proof (cases op)
  case (DialClient options identity parameters)
  have "count_list (map (\<lambda>kv. ''      '' @ parameter_element kv) entries) ''</Response>'' = 0" for entries
    by (induction entries) auto
  with DialClient show ?thesis
    by (simp add: DialBuilder_client_def DialBuilder_endDial_def DialBuilder_startDial_def
        Let_def split: option.split)
qed (simp_all add: TwiMLBuilder_say_def TwiMLBuilder_record_def TwiMLBuilder_hangup_def
      TwiMLBuilder_build_def DialBuilder_whatsapp_def DialBuilder_conference_def
      DialBuilder_endDial_def DialBuilder_startDial_def GatherBuilder_say_def
      GatherBuilder_endGather_def GatherBuilder_startGather_def Let_def)

lemma count_closing_foldl:
  "count_list (foldl apply_op twiml ops) ''</Response>'' =
     count_list twiml ''</Response>'' + count_list ops Build"
proof (induction ops arbitrary: twiml)
  case Nil
  then show ?case by simp
next
  case (Cons op ops)
  show ?case
    unfolding foldl_Cons Cons.IH count_closing_apply_op by simp
qed


lemma build_twice_document:
  "snd (TwiMLBuilder_build (fst (TwiMLBuilder_build twiml))) =
     snd (TwiMLBuilder_build twiml) @ ''\<newline></Response>''"
proof -
  have "join ((twiml @ [''</Response>'']) @ [''</Response>'']) ''\<newline>'' =
      join (twiml @ [''</Response>'']) ''\<newline>'' @ ''\<newline>'' @ ''</Response>''"
    by (rule join_snoc) simp
  then show ?thesis
    by (simp add: TwiMLBuilder_build_def Let_def)
qed

text \<open>
  Claim C2 (amended). \<open>build\<close> is not idempotent: every call pushes one more closing
  \<open>Response\<close> tag. After any sequence of builder operations the array holds as many
  closing tags as \<open>build\<close> was called, so the document returned by one more
  \<open>build\<close> holds one more than that (exactly one only when it is the first), and a
  \<open>build\<close> repeated at once returns the previous document followed by a line break and
  another closing tag.
\<close>

theorem build_appends_closing_tag:
  "count_list (run_ops ops) ''</Response>'' = count_list ops Build \<and>
   count_list (fst (TwiMLBuilder_build (run_ops ops))) ''</Response>'' = count_list ops Build + 1 \<and>
   snd (TwiMLBuilder_build twiml) = join (fst (TwiMLBuilder_build twiml)) ''\<newline>'' \<and>
   snd (TwiMLBuilder_build (fst (TwiMLBuilder_build twiml))) =
     snd (TwiMLBuilder_build twiml) @ ''\<newline></Response>''"
proof (intro conjI)
  have "count_list new_TwiMLBuilder ''</Response>'' = 0"
    by (simp add: new_TwiMLBuilder_def)
  then show c: "count_list (run_ops ops) ''</Response>'' = count_list ops Build"
    unfolding run_ops_def count_closing_foldl by simp
  have "count_list (apply_op (run_ops ops) Build) ''</Response>'' = count_list ops Build + 1"
    unfolding count_closing_apply_op c by simp
  then show "count_list (fst (TwiMLBuilder_build (run_ops ops))) ''</Response>'' =
      count_list ops Build + 1"
    by simp
  show "snd (TwiMLBuilder_build twiml) = join (fst (TwiMLBuilder_build twiml)) ''\<newline>''"
    by (simp add: TwiMLBuilder_build_def Let_def)
  show "snd (TwiMLBuilder_build (fst (TwiMLBuilder_build twiml))) =
     snd (TwiMLBuilder_build twiml) @ ''\<newline></Response>''"
    by (rule build_twice_document)
qed

text \<open>
  After \<open>say("hi")\<close>, the first \<open>build\<close> returns a document with one closing tag and
  the second \<open>build\<close> returns a document with two.
\<close>

theorem build_twice_counterexample:
  \<open>snd (TwiMLBuilder_build (run_ops [Say ''hi'' None])) =
     ''<?xml version="1.0" encoding="UTF-8"?>\<newline><Response>\<newline>  <Say>hi</Say>\<newline></Response>'' \<and>
   snd (TwiMLBuilder_build (fst (TwiMLBuilder_build (run_ops [Say ''hi'' None])))) =
     ''<?xml version="1.0" encoding="UTF-8"?>\<newline><Response>\<newline>  <Say>hi</Say>\<newline></Response>\<newline></Response>'' \<and>
   count_list (fst (TwiMLBuilder_build (fst (TwiMLBuilder_build (run_ops [Say ''hi'' None])))))
     ''</Response>'' = 2\<close>
  by (simp add: run_ops_def new_TwiMLBuilder_def TwiMLBuilder_build_def TwiMLBuilder_say_def
      Let_def field_def str_attr_def num_attr_def tag_attrs_def)

text \<open>
  Claim C4 (amended). The render operations do not escape anything: the text given to
  \<open>say\<close>, and the caller id, the client identity and every custom parameter name and
  value given to \<open>incomingCall\<close>, stand in the produced document exactly as they were
  supplied, between the markup that surrounds them.
\<close>

theorem say_inserts_text_verbatim:
  \<open>sublist (''>'' @ text @ ''</Say>'')
     (snd (TwiMLBuilder_build (TwiMLBuilder_say twiml text options))) \<and>
   sublist (''<Dial callerId="'' @ callerId params @ ''">'') (incomingCall params) \<and>
   sublist (''<Identity>'' @ or_default (clientIdentity params) ''default-client'' @ ''</Identity>'')
     (incomingCall params) \<and>
   (customParams params = Some entries \<and> (key, v) \<in> set entries \<longrightarrow>
      sublist (''<Parameter name="'' @ key @ ''" value="'' @ v @ ''" />'') (incomingCall params))\<close>
proof (intro conjI impI)
  define attrs where "attrs = str_attr ''voice'' (field options say_voice) @
      str_attr ''language'' (field options say_language) @ num_attr ''loop'' (field options say_loop)"
  define line where "line = ''  <Say'' @ tag_attrs attrs @ ''>'' @ text @ ''</Say>''"
  have "line = (''  <Say'' @ tag_attrs attrs) @ (''>'' @ text @ ''</Say>'') @ []"
    by (simp add: line_def)
  then have "sublist (''>'' @ text @ ''</Say>'') line"
    unfolding sublist_def by blast
  moreover have "sublist line (join (twiml @ [line] @ [''</Response>'']) ''\<newline>'')"
    by (rule sublist_join) simp
  ultimately have "sublist (''>'' @ text @ ''</Say>'') (join (twiml @ [line] @ [''</Response>'']) ''\<newline>'')"
    by (rule sublist_order.order_trans)
  then show "sublist (''>'' @ text @ ''</Say>'')
     (snd (TwiMLBuilder_build (TwiMLBuilder_say twiml text options)))"
    by (simp add: TwiMLBuilder_build_def TwiMLBuilder_say_def Let_def line_def attrs_def)
next
  show \<open>sublist (''<Dial callerId="'' @ callerId params @ ''">'') (incomingCall params)\<close>
    unfolding incomingCall_def sublist_def
    by (rule exI [of _ \<open>''<?xml version="1.0" encoding="UTF-8"?>\<newline><Response>\<newline>  <Say voice="Polly.Joanna">Welcome to WhatsApp Business Calling</Say>\<newline>  ''\<close>])
       (rule exI, simp)
next
  show "sublist (''<Identity>'' @ or_default (clientIdentity params) ''default-client'' @ ''</Identity>'')
     (incomingCall params)"
    unfolding incomingCall_def sublist_def
    by (rule exI [of _ \<open>''<?xml version="1.0" encoding="UTF-8"?>\<newline><Response>\<newline>  <Say voice="Polly.Joanna">Welcome to WhatsApp Business Calling</Say>\<newline>  <Dial callerId="'' @ callerId params @ ''">\<newline>    <Client>\<newline>      ''\<close>])
       (rule exI, simp)
next
  assume a: "customParams params = Some entries \<and> (key, v) \<in> set entries"
  define J where "J = join (map parameter_element entries) ''\<newline>      ''"
  have "parameter_element (key, v) \<in> set (map parameter_element entries)"
    using a by force
  then have "sublist (parameter_element (key, v)) J"
    unfolding J_def by (rule sublist_join)
  moreover have "\<exists>P S. incomingCall params = P @ J @ S"
    unfolding incomingCall_def
    by (rule exI [of _ \<open>''<?xml version="1.0" encoding="UTF-8"?>\<newline><Response>\<newline>  <Say voice="Polly.Joanna">Welcome to WhatsApp Business Calling</Say>\<newline>  <Dial callerId="'' @ callerId params @ ''">\<newline>    <Client>\<newline>      <Identity>'' @ or_default (clientIdentity params) ''default-client'' @ ''</Identity>\<newline>      ''\<close>])
       (rule exI, simp add: a J_def)
  then have "sublist J (incomingCall params)"
    unfolding sublist_def .
  ultimately have "sublist (parameter_element (key, v)) (incomingCall params)"
    by (rule sublist_order.order_trans)
  then show \<open>sublist (''<Parameter name="'' @ key @ ''" value="'' @ v @ ''" />'') (incomingCall params)\<close>
    by (simp add: parameter_element_def)
qed

theorem say_inserts_text_verbatim_witness:
  \<open>sublist ''>a<b</Say>'' (snd (TwiMLBuilder_build (TwiMLBuilder_say new_TwiMLBuilder ''a<b'' None))) \<and>
   sublist ''<Dial callerId="whatsapp:+1">''
     (incomingCall \<lparr>callerId = ''whatsapp:+1'', clientIdentity = None,
        customParams = Some [(''k'', ''<v>'')]\<rparr>) \<and>
   sublist ''<Identity>default-client</Identity>''
     (incomingCall \<lparr>callerId = ''whatsapp:+1'', clientIdentity = None,
        customParams = Some [(''k'', ''<v>'')]\<rparr>) \<and>
   sublist ''<Parameter name="k" value="<v>" />''
     (incomingCall \<lparr>callerId = ''whatsapp:+1'', clientIdentity = None,
        customParams = Some [(''k'', ''<v>'')]\<rparr>)\<close>
  using say_inserts_text_verbatim [of "''a<b''" new_TwiMLBuilder None
      "\<lparr>callerId = ''whatsapp:+1'', clientIdentity = None, customParams = Some [(''k'', ''<v>'')]\<rparr>"
      "[(''k'', ''<v>'')]" "''k''" "''<v>''"]
  by (simp add: or_default_def)

text \<open>
  The text \<^verbatim>\<open>a<b & c\<close> given to \<open>say\<close> reaches the document with its \<open><\<close> and
  \<open>&\<close> as they are, and a caller id holding a double quote closes the attribute early.
\<close>

theorem say_unescaped_counterexample:
  \<open>snd (TwiMLBuilder_build (TwiMLBuilder_say new_TwiMLBuilder ''a<b & c'' None)) =
     ''<?xml version="1.0" encoding="UTF-8"?>\<newline><Response>\<newline>  <Say>a<b & c</Say>\<newline></Response>'' \<and>
   incomingCall \<lparr>callerId = ''x"><Hangup/><Dial y="'', clientIdentity = None, customParams = None\<rparr> =
     ''<?xml version="1.0" encoding="UTF-8"?>\<newline><Response>\<newline>  <Say voice="Polly.Joanna">Welcome to WhatsApp Business Calling</Say>\<newline>  <Dial callerId="x"><Hangup/><Dial y="">\<newline>    <Client>\<newline>      <Identity>default-client</Identity>\<newline>      \<newline>    </Client>\<newline>  </Dial>\<newline></Response>''\<close>
  by (simp add: new_TwiMLBuilder_def TwiMLBuilder_build_def TwiMLBuilder_say_def
      Let_def field_def str_attr_def num_attr_def tag_attrs_def incomingCall_def or_default_def)


section \<open>Properties of the registry and of the client wrapper\<close>

lemma set_Map_set: "set (Map_set m k v) \<subseteq> insert (k, v) (set m)"
  by (induction m k v rule: Map_set.induct) auto

lemma Map_get_Map_set_same: "Map_get (Map_set m k v) k = Some v"
  by (induction m k v rule: Map_set.induct) (auto simp: Map_get_def)

lemma Map_get_Map_set_other: "k' \<noteq> k \<Longrightarrow> Map_get (Map_set m k v) k' = Map_get m k'"
  by (induction m k v rule: Map_set.induct) (auto simp: Map_get_def)

lemma Map_get_in_set: "Map_get m k = Some v \<Longrightarrow> (k, v) \<in> set m"
  unfolding Map_get_def by (rule map_of_SomeD)

lemma Map_keys_Map_set_present: "k \<in> set (Map_keys m) \<Longrightarrow> Map_keys (Map_set m k v) = Map_keys m"
  by (induction m k v rule: Map_set.induct) (auto simp: Map_keys_def)

lemma Map_keys_Map_set_absent: "k \<notin> set (Map_keys m) \<Longrightarrow> Map_keys (Map_set m k v) = Map_keys m @ [k]"
  by (induction m k v rule: Map_set.induct) (auto simp: Map_keys_def)

lemma distinct_Map_keys_Map_set: "distinct (Map_keys m) \<Longrightarrow> distinct (Map_keys (Map_set m k v))"
  by (cases "k \<in> set (Map_keys m)") (simp_all add: Map_keys_Map_set_present Map_keys_Map_set_absent)

lemma Map_get_None_iff: "Map_get m k = None \<longleftrightarrow> k \<notin> set (Map_keys m)"
  by (simp add: Map_get_def Map_keys_def map_of_eq_None_iff)

lemma Map_delete_absent: "Map_get m k = None \<Longrightarrow> Map_delete m k = m"
  unfolding Map_get_None_iff Map_keys_def Map_delete_def by (induction m) auto

lemma Ball_Map_set:
  assumes "\<forall>kc \<in> set m. P kc" and "P (k, v)"
  shows "\<forall>kc \<in> set (Map_set m k v). P kc"
  using assms set_Map_set [of m k v] by blast

lemma handle_distinct:
  assumes "\<forall>kc \<in> set reg. distinct (participants (snd kc))"
  shows "\<forall>kc \<in> set (handle reg r). distinct (participants (snd kc))"
proof (cases r)
  case (ConferenceCreate n m f t)
  show ?thesis
    unfolding ConferenceCreate handle.simps voice_conference_create_def
    by (rule Ball_Map_set [OF assms]) simp
next
  case (ConferenceJoin n f)
  show ?thesis
  proof (cases "Map_get reg n")
    case None
    with ConferenceJoin assms show ?thesis by (simp add: voice_conference_join_def)
  next
    case (Some c)
    then have "(n, c) \<in> set reg"
      by (rule Map_get_in_set)
    with assms have dc: "distinct (participants c)"
      by fastforce
    show ?thesis
    proof (cases "f \<in> set (participants c)")
      case True
      with Some ConferenceJoin assms show ?thesis by (simp add: voice_conference_join_def)
    next
      case False
      with dc have "distinct (participants (snd (n, c\<lparr>participants := participants c @ [f]\<rparr>)))"
        by simp
      with assms have "\<forall>kc \<in> set (Map_set reg n (c\<lparr>participants := participants c @ [f]\<rparr>)).
          distinct (participants (snd kc))"
        by (rule Ball_Map_set)
      with False Some ConferenceJoin show ?thesis by (simp add: voice_conference_join_def)
    qed
  qed
next
  case (ConferenceEvent e n)
  with assms show ?thesis by (auto simp: conference_events_def Map_delete_def)
qed

lemma foldl_handle_distinct:
  "\<forall>kc \<in> set reg. distinct (participants (snd kc)) \<Longrightarrow>
   \<forall>kc \<in> set (foldl handle reg rs). distinct (participants (snd kc))"
proof (induction rs arbitrary: reg)
  case Nil
  then show ?case by simp
next
  case (Cons r rs)
  from Cons.prems have "\<forall>kc \<in> set (handle reg r). distinct (participants (snd kc))"
    by (rule handle_distinct)
  then show ?case
    unfolding foldl_Cons by (rule Cons.IH)
qed

lemma serve_distinct: "\<forall>kc \<in> set (serve rs). distinct (participants (snd kc))"
  unfolding serve_def by (rule foldl_handle_distinct) simp

lemma join_present_noop:
  "Map_get reg n = Some c \<Longrightarrow> f \<in> set (participants c) \<Longrightarrow> voice_conference_join reg n f = reg"
  by (simp add: voice_conference_join_def)


lemma join_appends:
  "Map_get reg n = Some c \<Longrightarrow> distinct (participants c @ ps) \<Longrightarrow>
   Map_get (foldl handle reg (map (ConferenceJoin n) ps)) n =
     Some (c\<lparr>participants := participants c @ ps\<rparr>)"
proof (induction ps arbitrary: reg c)
  case Nil
  then show ?case by simp
next
  case (Cons p ps)
  let ?c = "c\<lparr>participants := participants c @ [p]\<rparr>"
  from Cons.prems have np: "p \<notin> set (participants c)"
    by simp
  with Cons.prems(1) have h: "voice_conference_join reg n p = Map_set reg n ?c"
    by (simp add: voice_conference_join_def)
  have g: "Map_get (Map_set reg n ?c) n = Some ?c"
    by (rule Map_get_Map_set_same)
  from Cons.prems(2) have d: "distinct (participants ?c @ ps)"
    by simp
  from Cons.IH [OF g d] show ?case
    by (simp add: h)
qed

lemma Device_connect_accept:
  assumes "platform (commands s @ [Connect params]) = Inr sid"
  shows "Device_connect platform s params =
    (Inr (length (calls s)),
     s\<lparr>calls := calls s @ [\<lparr>CallSid = sid, muted = False, disconnected = False\<rparr>],
       commands := commands s @ [Connect params]\<rparr>)"
  using assms by (simp add: Device_connect_def Let_def)

lemma addParticipant_accept:
  assumes "\<forall>log. \<exists>sid. platform log = Inr sid" and "startsWith p ''whatsapp:''"
  shows "\<exists>s'. ConferenceSession_addParticipant platform session s p =
    (Inr (), session\<lparr>session_participants :=
       Map_set (session_participants session) p (length (calls s))\<rparr>, s')"
proof -
  let ?params = "[(''To'', p), (''From'', whatsappSender session),
                 (''ConferenceName'', conferenceId session), (''Action'', ''join_conference'')]"
  from assms(1) obtain sid where "platform (commands s @ [Connect ?params]) = Inr sid"
    by blast
  then have "Device_connect platform s ?params =
    (Inr (length (calls s)),
     s\<lparr>calls := calls s @ [\<lparr>CallSid = sid, muted = False, disconnected = False\<rparr>],
       commands := commands s @ [Connect ?params]\<rparr>)"
    by (rule Device_connect_accept)
  with assms(2) show ?thesis
    by (simp add: ConferenceSession_addParticipant_def)
qed

lemma addParticipants_accept:
  assumes "\<forall>log. \<exists>sid. platform log = Inr sid"
  shows "\<forall>p \<in> set ps. startsWith p ''whatsapp:'' \<Longrightarrow>
    distinct (Map_keys (session_participants session) @ ps) \<Longrightarrow>
    \<exists>session' s'. addParticipants platform session s ps = (Inr (), session', s') \<and>
       Map_keys (session_participants session') = Map_keys (session_participants session) @ ps"
proof (induction ps arbitrary: session s)
  case Nil
  then show ?case by simp
next
  case (Cons p ps)
  from Cons.prems(1) have "startsWith p ''whatsapp:''"
    by simp
  with assms obtain s1 where a: "ConferenceSession_addParticipant platform session s p =
    (Inr (), session\<lparr>session_participants :=
       Map_set (session_participants session) p (length (calls s))\<rparr>, s1)"
    using addParticipant_accept by blast
  let ?session = "session\<lparr>session_participants :=
       Map_set (session_participants session) p (length (calls s))\<rparr>"
  from Cons.prems(2) have "p \<notin> set (Map_keys (session_participants session))"
    by simp
  then have k: "Map_keys (session_participants ?session) = Map_keys (session_participants session) @ [p]"
    by (simp add: Map_keys_Map_set_absent)
  from Cons.prems have "\<forall>q \<in> set ps. startsWith q ''whatsapp:''"
    and "distinct (Map_keys (session_participants ?session) @ ps)"
    unfolding k by simp_all
  from Cons.IH [OF this, of s1] obtain session' s' where
    "addParticipants platform ?session s1 ps = (Inr (), session', s')"
    "Map_keys (session_participants session') = Map_keys (session_participants ?session) @ ps"
    by blast
  with a k show ?case by simp
qed

lemma createConference_accept:
  assumes "\<forall>log. \<exists>sid. platform log = Inr sid"
    and "\<forall>p \<in> set (opt_participants options). startsWith p ''whatsapp:''"
    and "distinct (opt_participants options)"
  shows "\<exists>conference s'. createConference platform this s options =
      (Inr conference,
       this\<lparr>activeConferences := Map_set (activeConferences this) (opt_conferenceId options) conference\<rparr>,
       s') \<and>
    getParticipants conference = opt_participants options"
proof -
  let ?new = "new_ConferenceSession (opt_conferenceId options) (config_whatsappSender this)"
  let ?params = "[(''ConferenceName'', conferenceId ?new), (''From'', whatsappSender ?new),
              (''Action'', ''create_conference''),
              (''Moderator'', if opt_moderator options = Some True then ''true'' else ''false'')]"
  from assms(1) obtain sid where "platform (commands s @ [Connect ?params]) = Inr sid"
    by blast
  then obtain s1 where c: "Device_connect platform s ?params = (Inr (length (calls s)), s1)"
    using Device_connect_accept by blast
  let ?session = "?new\<lparr>conferenceCall := Some (length (calls s))\<rparr>"
  have "Map_keys (session_participants ?session) = []"
    by (simp add: new_ConferenceSession_def Map_keys_def)
  with assms(3) have "distinct (Map_keys (session_participants ?session) @ opt_participants options)"
    by simp
  from addParticipants_accept [OF assms(1) assms(2) this, of s1]
  obtain conference s' where
    "addParticipants platform ?session s1 (opt_participants options) = (Inr (), conference, s')"
    "Map_keys (session_participants conference) = opt_participants options"
    by (auto simp: new_ConferenceSession_def Map_keys_def)
  with c show ?thesis
    by (simp add: createConference_def ConferenceSession_initialize_def getParticipants_def)
qed


lemma makeCall_prefixed_connects:
  "startsWith (call_to options) ''whatsapp:'' \<Longrightarrow>
   commands (snd (snd (makeCall platform this s options))) =
     commands s @ [Connect (call_params this options)]"
  by (simp add: makeCall_def Device_connect_def Let_def split: sum.split)

lemma removeParticipant_present:
  "Map_get (session_participants session) whatsappNumber = Some c \<Longrightarrow>
   ConferenceSession_removeParticipant session s whatsappNumber =
     (session\<lparr>session_participants := Map_delete (session_participants session) whatsappNumber\<rparr>,
      Call_disconnect s c)"
  by (simp add: ConferenceSession_removeParticipant_def)

lemma muteParticipant_present:
  "Map_get (session_participants session) whatsappNumber = Some c \<Longrightarrow>
   commands (snd (ConferenceSession_muteParticipant session s whatsappNumber)) =
     commands s @ [Mute c True] \<and>
   commands (snd (ConferenceSession_unmuteParticipant session s whatsappNumber)) =
     commands s @ [Mute c False]"
  by (simp add: ConferenceSession_muteParticipant_def ConferenceSession_unmuteParticipant_def
      Call_mute_def)

lemma addParticipant_keys:
  "whatsappNumber \<in> set (getParticipants session) \<Longrightarrow>
   getParticipants (fst (snd (ConferenceSession_addParticipant platform session s whatsappNumber))) =
     getParticipants session"
  by (simp add: ConferenceSession_addParticipant_def getParticipants_def Map_keys_Map_set_present
      split: prod.split sum.split)

lemma addParticipant_distinct:
  "distinct (getParticipants session) \<Longrightarrow>
   distinct (getParticipants (fst (snd (ConferenceSession_addParticipant platform session s whatsappNumber))))"
  by (simp add: ConferenceSession_addParticipant_def getParticipants_def distinct_Map_keys_Map_set
      split: prod.split sum.split)

text \<open>
  Claim C8. When the destination of a call does not begin with \<open>whatsapp:\<close>,
  \<open>makeCall\<close> throws the format error; the wrapper, with its active calls, and the
  device are as before, and the command log in particular has no new connect request.
\<close>

theorem makeCall_rejects_unprefixed:
  "\<not> startsWith (call_to options) ''whatsapp:'' \<Longrightarrow>
   makeCall platform this s options = (Inl (Error invalid_number_message), this, s) \<and>
   activeCalls (fst (snd (makeCall platform this s options))) = activeCalls this \<and>
   commands (snd (snd (makeCall platform this s options))) = commands s"
  by (simp add: makeCall_def)

theorem makeCall_rejects_unprefixed_witness:
  "\<not> startsWith ''+15550001'' ''whatsapp:'' \<and>
   makeCall (\<lambda>log. Inr ''CA1'')
     \<lparr>config_whatsappSender = ''whatsapp:+15550000'', activeCalls = [], activeConferences = []\<rparr>
     \<lparr>calls = [], commands = []\<rparr>
     \<lparr>call_to = ''+15550001'', call_from = None, call_customParameters = None\<rparr> =
   (Inl (Error invalid_number_message),
    \<lparr>config_whatsappSender = ''whatsapp:+15550000'', activeCalls = [], activeConferences = []\<rparr>,
    \<lparr>calls = [], commands = []\<rparr>)"
proof -
  have h: "\<not> startsWith ''+15550001'' ''whatsapp:''"
    by (simp add: startsWith_def)
  from h makeCall_rejects_unprefixed [of "\<lparr>call_to = ''+15550001'', call_from = None,
      call_customParameters = None\<rparr>" "\<lambda>log. Inr ''CA1''"
      "\<lparr>config_whatsappSender = ''whatsapp:+15550000'', activeCalls = [], activeConferences = []\<rparr>"
      "\<lparr>calls = [], commands = []\<rparr>"]
  show ?thesis by simp
qed

text \<open>
  Claim C9. For a conference session held by the registry and an address that is not
  among its participants, \<open>removeParticipant\<close> changes nothing: the session (its
  participants and every other field) and the device are returned as they were. The
  function has no throwing branch, which its result type shows.
\<close>

theorem removeParticipant_absent_noop:
  "Map_get (activeConferences this) cid = Some session \<Longrightarrow>
   whatsappNumber \<notin> set (getParticipants session) \<Longrightarrow>
   ConferenceSession_removeParticipant session s whatsappNumber = (session, s)"
  by (simp add: ConferenceSession_removeParticipant_def getParticipants_def
      Map_get_None_iff [symmetric])

theorem removeParticipant_absent_noop_witness:
  "ConferenceSession_removeParticipant
     \<lparr>conferenceId = ''c1'', whatsappSender = ''whatsapp:+15550000'',
      session_participants = [(''whatsapp:+15550001'', 1)], conferenceCall = Some 0\<rparr>
     \<lparr>calls = [\<lparr>CallSid = ''CA0'', muted = False, disconnected = False\<rparr>,
                \<lparr>CallSid = ''CA1'', muted = False, disconnected = False\<rparr>],
      commands = []\<rparr>
     ''whatsapp:+19999999999'' =
   (\<lparr>conferenceId = ''c1'', whatsappSender = ''whatsapp:+15550000'',
      session_participants = [(''whatsapp:+15550001'', 1)], conferenceCall = Some 0\<rparr>,
    \<lparr>calls = [\<lparr>CallSid = ''CA0'', muted = False, disconnected = False\<rparr>,
                \<lparr>CallSid = ''CA1'', muted = False, disconnected = False\<rparr>],
      commands = []\<rparr>)"
proof -
  let ?session = "\<lparr>conferenceId = ''c1'', whatsappSender = ''whatsapp:+15550000'',
      session_participants = [(''whatsapp:+15550001'', 1)], conferenceCall = Some 0\<rparr>"
  let ?this = "\<lparr>config_whatsappSender = ''whatsapp:+15550000'', activeCalls = [],
      activeConferences = [(''c1'', ?session)]\<rparr>"
  have a: "Map_get (activeConferences ?this) ''c1'' = Some ?session"
    by (simp add: Map_get_def)
  have b: "''whatsapp:+19999999999'' \<notin> set (getParticipants ?session)"
    by (simp add: getParticipants_def Map_keys_def)
  show ?thesis
    by (rule removeParticipant_absent_noop [OF a b])
qed

text \<open>
  Claim C10. For an address that is not a participant of the session,
  \<open>muteParticipant\<close> and \<open>unmuteParticipant\<close> do nothing: the session and the device come
  back unchanged, so no mute command is added to the log and no call's mute flag
  changes. Neither function has a throwing branch.
\<close>

theorem mute_unmute_absent_noop:
  "whatsappNumber \<notin> set (getParticipants session) \<Longrightarrow>
   ConferenceSession_muteParticipant session s whatsappNumber = (session, s) \<and>
   ConferenceSession_unmuteParticipant session s whatsappNumber = (session, s)"
  by (simp add: ConferenceSession_muteParticipant_def ConferenceSession_unmuteParticipant_def
      getParticipants_def Map_get_None_iff [symmetric])

theorem mute_unmute_absent_noop_witness:
  "ConferenceSession_muteParticipant
     \<lparr>conferenceId = ''c1'', whatsappSender = ''whatsapp:+15550000'',
      session_participants = [(''whatsapp:+15550001'', 0)], conferenceCall = None\<rparr>
     \<lparr>calls = [\<lparr>CallSid = ''CA0'', muted = True, disconnected = False\<rparr>], commands = []\<rparr>
     ''whatsapp:+19999999999'' =
   (\<lparr>conferenceId = ''c1'', whatsappSender = ''whatsapp:+15550000'',
      session_participants = [(''whatsapp:+15550001'', 0)], conferenceCall = None\<rparr>,
    \<lparr>calls = [\<lparr>CallSid = ''CA0'', muted = True, disconnected = False\<rparr>], commands = []\<rparr>) \<and>
   ConferenceSession_unmuteParticipant
     \<lparr>conferenceId = ''c1'', whatsappSender = ''whatsapp:+15550000'',
      session_participants = [(''whatsapp:+15550001'', 0)], conferenceCall = None\<rparr>
     \<lparr>calls = [\<lparr>CallSid = ''CA0'', muted = True, disconnected = False\<rparr>], commands = []\<rparr>
     ''whatsapp:+19999999999'' =
   (\<lparr>conferenceId = ''c1'', whatsappSender = ''whatsapp:+15550000'',
      session_participants = [(''whatsapp:+15550001'', 0)], conferenceCall = None\<rparr>,
    \<lparr>calls = [\<lparr>CallSid = ''CA0'', muted = True, disconnected = False\<rparr>], commands = []\<rparr>)"
proof -
  let ?session = "\<lparr>conferenceId = ''c1'', whatsappSender = ''whatsapp:+15550000'',
      session_participants = [(''whatsapp:+15550001'', 0)], conferenceCall = None\<rparr>"
  have b: "''whatsapp:+19999999999'' \<notin> set (getParticipants ?session)"
    by (simp add: getParticipants_def Map_keys_def)
  show ?thesis
    by (rule mute_unmute_absent_noop [OF b])
qed

lemma getParticipantCount_keys: "getParticipantCount session = length (getParticipants session)"
  by (simp add: getParticipantCount_def getParticipants_def Map_keys_def)

lemma addParticipant_unprefixed:
  "\<not> startsWith whatsappNumber ''whatsapp:'' \<Longrightarrow>
   ConferenceSession_addParticipant platform session s whatsappNumber =
     (Inl (Error invalid_number_message), session, s)"
  by (simp add: ConferenceSession_addParticipant_def)

lemma addParticipant_rejected:
  "startsWith whatsappNumber ''whatsapp:'' \<Longrightarrow>
   platform (commands s @
     [Connect [(''To'', whatsappNumber), (''From'', whatsappSender session),
               (''ConferenceName'', conferenceId session), (''Action'', ''join_conference'')]]) = Inl e \<Longrightarrow>
   ConferenceSession_addParticipant platform session s whatsappNumber =
     (Inl (UpstreamError e), session,
      s\<lparr>commands := commands s @
        [Connect [(''To'', whatsappNumber), (''From'', whatsappSender session),
                  (''ConferenceName'', conferenceId session), (''Action'', ''join_conference'')]]\<rparr>)"
  by (simp add: ConferenceSession_addParticipant_def Device_connect_def Let_def)

lemma addParticipant_accepted:
  "startsWith whatsappNumber ''whatsapp:'' \<Longrightarrow>
   platform (commands s @
     [Connect [(''To'', whatsappNumber), (''From'', whatsappSender session),
               (''ConferenceName'', conferenceId session), (''Action'', ''join_conference'')]]) = Inr sid \<Longrightarrow>
   ConferenceSession_addParticipant platform session s whatsappNumber =
     (Inr (),
      session\<lparr>session_participants :=
        Map_set (session_participants session) whatsappNumber (length (calls s))\<rparr>,
      s\<lparr>calls := calls s @ [\<lparr>CallSid = sid, muted = False, disconnected = False\<rparr>],
        commands := commands s @
        [Connect [(''To'', whatsappNumber), (''From'', whatsappSender session),
                  (''ConferenceName'', conferenceId session), (''Action'', ''join_conference'')]]\<rparr>)"
  by (simp add: ConferenceSession_addParticipant_def Device_connect_def Let_def)

text \<open>
  Claim C7 (amended). In every state of the server's registry reached by its handlers,
  no conference lists a participant twice, and a join request from an address that is
  already listed leaves the registry as it was; the handlers have no throwing branch.
  \<open>ConferenceSession.addParticipant\<close> has no membership test, and on an address that is
  present it is not a no-op: it never lists the address a second time, so the list of
  participants and their number stay as they were and free of duplicates, but it sends
  a new connect request. When the platform rejects the request the platform's error is
  thrown and the session is unchanged; when the platform accepts it the stored call
  handle is replaced by the new call. An address without the channel prefix is refused
  with the format error before anything is sent.
\<close>

theorem participants_never_duplicated:
  "(\<forall>kc \<in> set (serve requests). distinct (participants (snd kc))) \<and>
   (Map_get reg ConferenceName = Some conference \<and> From \<in> set (participants conference) \<longrightarrow>
      voice_conference_join reg ConferenceName From = reg) \<and>
   (whatsappNumber \<in> set (getParticipants session) \<longrightarrow>
      getParticipants (fst (snd (ConferenceSession_addParticipant platform session s whatsappNumber))) =
        getParticipants session \<and>
      getParticipantCount (fst (snd (ConferenceSession_addParticipant platform session s whatsappNumber))) =
        getParticipantCount session) \<and>
   (distinct (getParticipants session) \<longrightarrow>
      distinct (getParticipants
        (fst (snd (ConferenceSession_addParticipant platform session s whatsappNumber))))) \<and>
   (\<not> startsWith whatsappNumber ''whatsapp:'' \<longrightarrow>
      ConferenceSession_addParticipant platform session s whatsappNumber =
        (Inl (Error invalid_number_message), session, s)) \<and>
   (startsWith whatsappNumber ''whatsapp:'' \<and>
    platform (commands s @
      [Connect [(''To'', whatsappNumber), (''From'', whatsappSender session),
                (''ConferenceName'', conferenceId session), (''Action'', ''join_conference'')]]) = Inl e \<longrightarrow>
      ConferenceSession_addParticipant platform session s whatsappNumber =
        (Inl (UpstreamError e), session,
         s\<lparr>commands := commands s @
           [Connect [(''To'', whatsappNumber), (''From'', whatsappSender session),
                     (''ConferenceName'', conferenceId session), (''Action'', ''join_conference'')]]\<rparr>)) \<and>
   (startsWith whatsappNumber ''whatsapp:'' \<and>
    platform (commands s @
      [Connect [(''To'', whatsappNumber), (''From'', whatsappSender session),
                (''ConferenceName'', conferenceId session), (''Action'', ''join_conference'')]]) = Inr sid \<longrightarrow>
      ConferenceSession_addParticipant platform session s whatsappNumber =
        (Inr (),
         session\<lparr>session_participants :=
           Map_set (session_participants session) whatsappNumber (length (calls s))\<rparr>,
         s\<lparr>calls := calls s @ [\<lparr>CallSid = sid, muted = False, disconnected = False\<rparr>],
           commands := commands s @
           [Connect [(''To'', whatsappNumber), (''From'', whatsappSender session),
                     (''ConferenceName'', conferenceId session), (''Action'', ''join_conference'')]]\<rparr>))"
proof (intro conjI impI)
  show "\<forall>kc \<in> set (serve requests). distinct (participants (snd kc))"
    by (rule serve_distinct)
next
  assume "Map_get reg ConferenceName = Some conference \<and> From \<in> set (participants conference)"
  then show "voice_conference_join reg ConferenceName From = reg"
    by (simp add: join_present_noop)
next
  assume a: "whatsappNumber \<in> set (getParticipants session)"
  then show k: "getParticipants (fst (snd (ConferenceSession_addParticipant platform session s whatsappNumber))) =
        getParticipants session"
    by (rule addParticipant_keys)
  show "getParticipantCount (fst (snd (ConferenceSession_addParticipant platform session s whatsappNumber))) =
        getParticipantCount session"
    unfolding getParticipantCount_keys k by (rule refl)
next
  assume "distinct (getParticipants session)"
  then show "distinct (getParticipants
        (fst (snd (ConferenceSession_addParticipant platform session s whatsappNumber))))"
    by (rule addParticipant_distinct)
next
  assume "\<not> startsWith whatsappNumber ''whatsapp:''"
  then show "ConferenceSession_addParticipant platform session s whatsappNumber =
        (Inl (Error invalid_number_message), session, s)"
    by (rule addParticipant_unprefixed)
next
  assume "startsWith whatsappNumber ''whatsapp:'' \<and>
    platform (commands s @
      [Connect [(''To'', whatsappNumber), (''From'', whatsappSender session),
                (''ConferenceName'', conferenceId session), (''Action'', ''join_conference'')]]) = Inl e"
  then show "ConferenceSession_addParticipant platform session s whatsappNumber =
        (Inl (UpstreamError e), session,
         s\<lparr>commands := commands s @
           [Connect [(''To'', whatsappNumber), (''From'', whatsappSender session),
                     (''ConferenceName'', conferenceId session), (''Action'', ''join_conference'')]]\<rparr>)"
    using addParticipant_rejected by blast
next
  assume "startsWith whatsappNumber ''whatsapp:'' \<and>
    platform (commands s @
      [Connect [(''To'', whatsappNumber), (''From'', whatsappSender session),
                (''ConferenceName'', conferenceId session), (''Action'', ''join_conference'')]]) = Inr sid"
  then show "ConferenceSession_addParticipant platform session s whatsappNumber =
        (Inr (),
         session\<lparr>session_participants :=
           Map_set (session_participants session) whatsappNumber (length (calls s))\<rparr>,
         s\<lparr>calls := calls s @ [\<lparr>CallSid = sid, muted = False, disconnected = False\<rparr>],
           commands := commands s @
           [Connect [(''To'', whatsappNumber), (''From'', whatsappSender session),
                     (''ConferenceName'', conferenceId session), (''Action'', ''join_conference'')]]\<rparr>)"
    using addParticipant_accepted by blast
qed

text \<open>
  On the server, \<open>c1\<close> is created and the same address joins twice. In the wrapper,
  \<open>c1\<close> is created with one participant and that participant is added again, the
  platform accepting every request: the count stays at 1 and the handle is replaced.
\<close>

theorem participants_never_duplicated_witness:
  "serve [ConferenceCreate ''c1'' None None 1, ConferenceJoin ''c1'' ''whatsapp:+15550001'',
          ConferenceJoin ''c1'' ''whatsapp:+15550001''] =
     [(''c1'', \<lparr>conference_id = ''c1'', participants = [''whatsapp:+15550001''],
               moderator = None, createdAt = 1\<rparr>)] \<and>
   voice_conference_join
     (serve [ConferenceCreate ''c1'' None None 1, ConferenceJoin ''c1'' ''whatsapp:+15550001''])
     ''c1'' ''whatsapp:+15550001'' =
     serve [ConferenceCreate ''c1'' None None 1, ConferenceJoin ''c1'' ''whatsapp:+15550001''] \<and>
   (let created = createConference (\<lambda>log. Inr ''CA'')
          \<lparr>config_whatsappSender = ''whatsapp:+15550000'', activeCalls = [], activeConferences = []\<rparr>
          \<lparr>calls = [], commands = []\<rparr>
          \<lparr>opt_conferenceId = ''c1'', opt_participants = [''whatsapp:+15550001''],
           opt_moderator = None, opt_muted = None, opt_hold = None\<rparr>;
        session = \<lparr>conferenceId = ''c1'', whatsappSender = ''whatsapp:+15550000'',
                   session_participants = [(''whatsapp:+15550001'', 1)], conferenceCall = Some 0\<rparr>;
        readded = ConferenceSession_addParticipant (\<lambda>log. Inr ''CA'') session (snd (snd created))
                    ''whatsapp:+15550001''
    in fst created = Inr session \<and>
       getParticipantCount session = 1 \<and>
       fst readded = Inr () \<and>
       getParticipants (fst (snd readded)) = [''whatsapp:+15550001''] \<and>
       getParticipantCount (fst (snd readded)) = 1 \<and>
       session_participants (fst (snd readded)) = [(''whatsapp:+15550001'', 2)] \<and>
       length (commands (snd (snd readded))) = length (commands (snd (snd created))) + 1 \<and>
       ConferenceSession_addParticipant (\<lambda>log. Inl ''busy'') session (snd (snd created))
           ''whatsapp:+15550001'' =
         (Inl (UpstreamError ''busy''), session,
          (snd (snd created))\<lparr>commands := commands (snd (snd created)) @
            [Connect [(''To'', ''whatsapp:+15550001''), (''From'', ''whatsapp:+15550000''),
                      (''ConferenceName'', ''c1''), (''Action'', ''join_conference'')]]\<rparr>) \<and>
       ConferenceSession_addParticipant (\<lambda>log. Inr ''CA'') session (snd (snd created))
           ''+15550001'' =
         (Inl (Error invalid_number_message), session, snd (snd created)))"
proof -
  let ?p = "''whatsapp:+15550001''"
  let ?c = "\<lparr>conference_id = ''c1'', participants = [?p], moderator = None, createdAt = 1\<rparr>"
  let ?session = "\<lparr>conferenceId = ''c1'', whatsappSender = ''whatsapp:+15550000'',
      session_participants = [(?p, 1)], conferenceCall = Some 0\<rparr>"
  let ?created = "createConference (\<lambda>log. Inr ''CA'')
          \<lparr>config_whatsappSender = ''whatsapp:+15550000'', activeCalls = [], activeConferences = []\<rparr>
          \<lparr>calls = [], commands = []\<rparr>
          \<lparr>opt_conferenceId = ''c1'', opt_participants = [?p],
           opt_moderator = None, opt_muted = None, opt_hold = None\<rparr>"
  let ?d = "\<lparr>calls = [\<lparr>CallSid = ''CA'', muted = False, disconnected = False\<rparr>,
                      \<lparr>CallSid = ''CA'', muted = False, disconnected = False\<rparr>],
             commands = [Connect [(''ConferenceName'', ''c1''), (''From'', ''whatsapp:+15550000''),
                                  (''Action'', ''create_conference''), (''Moderator'', ''false'')],
                         Connect [(''To'', ?p), (''From'', ''whatsapp:+15550000''),
                                  (''ConferenceName'', ''c1''), (''Action'', ''join_conference'')]]\<rparr>"
  have r2: "serve [ConferenceCreate ''c1'' None None 1, ConferenceJoin ''c1'' ?p] = [(''c1'', ?c)]"
    by (simp add: serve_def voice_conference_create_def voice_conference_join_def Map_get_def)
  have r3: "serve [ConferenceCreate ''c1'' None None 1, ConferenceJoin ''c1'' ?p,
      ConferenceJoin ''c1'' ?p] = [(''c1'', ?c)]"
    by (simp add: serve_def voice_conference_create_def voice_conference_join_def Map_get_def)
  have cr: "?created = (Inr ?session,
      \<lparr>config_whatsappSender = ''whatsapp:+15550000'', activeCalls = [],
       activeConferences = [(''c1'', ?session)]\<rparr>, ?d)"
    by (simp add: createConference_def ConferenceSession_initialize_def new_ConferenceSession_def
        ConferenceSession_addParticipant_def Device_connect_def Let_def startsWith_def)
  have g: "Map_get [(''c1'', ?c)] ''c1'' = Some ?c \<and> ?p \<in> set (participants ?c)"
    by (simp add: Map_get_def)
  have h: "startsWith ?p ''whatsapp:''"
    by (simp add: startsWith_def)
  note inst = participants_never_duplicated [of "[ConferenceCreate ''c1'' None None 1,
      ConferenceJoin ''c1'' ?p, ConferenceJoin ''c1'' ?p]" "[(''c1'', ?c)]" "''c1''" ?c ?p ?p ?session
      "\<lambda>log. Inr ''CA''" ?d _ "''CA''"]
  from inst g have j: "voice_conference_join [(''c1'', ?c)] ''c1'' ?p = [(''c1'', ?c)]"
    by blast
  from inst h have ra: "ConferenceSession_addParticipant (\<lambda>log. Inr ''CA'') ?session ?d ?p =
        (Inr (),
         ?session\<lparr>session_participants := Map_set (session_participants ?session) ?p (length (calls ?d))\<rparr>,
         ?d\<lparr>calls := calls ?d @ [\<lparr>CallSid = ''CA'', muted = False, disconnected = False\<rparr>],
           commands := commands ?d @
           [Connect [(''To'', ?p), (''From'', whatsappSender ?session),
                     (''ConferenceName'', conferenceId ?session), (''Action'', ''join_conference'')]]\<rparr>)"
    by blast
  note rejecting = participants_never_duplicated [of "[ConferenceCreate ''c1'' None None 1,
      ConferenceJoin ''c1'' ?p, ConferenceJoin ''c1'' ?p]" "[(''c1'', ?c)]" "''c1''" ?c ?p ?p ?session
      "\<lambda>log. Inl ''busy''" ?d "''busy''"]
  from rejecting h have rb: "ConferenceSession_addParticipant (\<lambda>log. Inl ''busy'') ?session ?d ?p =
        (Inl (UpstreamError ''busy''), ?session,
         ?d\<lparr>commands := commands ?d @
           [Connect [(''To'', ?p), (''From'', whatsappSender ?session),
                     (''ConferenceName'', conferenceId ?session), (''Action'', ''join_conference'')]]\<rparr>)"
    by blast
  have h3: "\<not> startsWith ''+15550001'' ''whatsapp:''"
    by (simp add: startsWith_def)
  note unprefixed = participants_never_duplicated [of "[ConferenceCreate ''c1'' None None 1,
      ConferenceJoin ''c1'' ?p, ConferenceJoin ''c1'' ?p]" "[(''c1'', ?c)]" "''c1''" ?c ?p
      "''+15550001''" ?session "\<lambda>log. Inr ''CA''" ?d]
  from unprefixed h3 have rc: "ConferenceSession_addParticipant (\<lambda>log. Inr ''CA'') ?session ?d
      ''+15550001'' = (Inl (Error invalid_number_message), ?session, ?d)"
    by blast
  from j ra rb rc show ?thesis
    unfolding r2 r3 Let_def cr
    by (simp add: getParticipants_def getParticipantCount_def Map_keys_def)
qed

text \<open>
  The wrapper creates \<open>c1\<close> with one participant and adds that participant again. With a
  platform that rejects the third request the call throws the platform's error; with a
  platform that accepts it a third connect request is sent and the participant's call
  handle changes from call 1 to call 2. In neither case is the call a no-op.
\<close>

theorem readd_participant_counterexample:
  "(let accepting = (\<lambda>log. Inr ''CA'' :: string + string);
        busy = (\<lambda>log. if length log \<le> 2 then Inr ''CA'' else Inl ''busy'' :: string + string);
        created = createConference busy
          \<lparr>config_whatsappSender = ''whatsapp:+15550000'', activeCalls = [], activeConferences = []\<rparr>
          \<lparr>calls = [], commands = []\<rparr>
          \<lparr>opt_conferenceId = ''c1'', opt_participants = [''whatsapp:+15550001''],
           opt_moderator = None, opt_muted = None, opt_hold = None\<rparr>;
        session = \<lparr>conferenceId = ''c1'', whatsappSender = ''whatsapp:+15550000'',
                   session_participants = [(''whatsapp:+15550001'', 1)], conferenceCall = Some 0\<rparr>;
        device = snd (snd created);
        request = Connect [(''To'', ''whatsapp:+15550001''), (''From'', ''whatsapp:+15550000''),
                           (''ConferenceName'', ''c1''), (''Action'', ''join_conference'')]
    in fst created = Inr session \<and>
       ''whatsapp:+15550001'' \<in> set (getParticipants session) \<and>
       ConferenceSession_addParticipant busy session device ''whatsapp:+15550001'' =
         (Inl (UpstreamError ''busy''), session, device\<lparr>commands := commands device @ [request]\<rparr>) \<and>
       ConferenceSession_addParticipant accepting session device ''whatsapp:+15550001'' =
         (Inr (),
          session\<lparr>session_participants := [(''whatsapp:+15550001'', 2)]\<rparr>,
          device\<lparr>calls := calls device @ [\<lparr>CallSid = ''CA'', muted = False, disconnected = False\<rparr>],
                 commands := commands device @ [request]\<rparr>) \<and>
       ConferenceSession_addParticipant accepting session device ''whatsapp:+15550001'' \<noteq>
         (Inr (), session, device))"
  by (simp add: Let_def createConference_def ConferenceSession_initialize_def
      new_ConferenceSession_def ConferenceSession_addParticipant_def Device_connect_def
      startsWith_def getParticipants_def Map_keys_def)

text \<open>
  Claim C3 (amended). Creating a conference never fails on an id that is present. For
  every registry state the server's handler stores under the id a fresh record, created
  at the call time, with no participants and with \<open>From\<close> as moderator exactly when
  \<open>Moderator\<close> is \<open>true\<close>, in place of a record that was there; every other id keeps
  its record. Participants come from the join requests that follow, in their order. The
  client wrapper does not look for the id either: when the platform accepts every
  request and the initial participants are distinct and begin with the channel prefix, it
  returns a session that lists them in the given order and stores it under the id.
\<close>

theorem createConference_overwrites:
  "Map_get (voice_conference_create reg ConferenceName Moderator From now) ConferenceName =
     Some \<lparr>conference_id = ConferenceName, participants = [],
           moderator = (if Moderator = Some ''true'' then From else None), createdAt = now\<rparr> \<and>
   (name \<noteq> ConferenceName \<longrightarrow>
      Map_get (voice_conference_create reg ConferenceName Moderator From now) name = Map_get reg name) \<and>
   (distinct ps \<longrightarrow>
      map_option participants
        (Map_get (foldl handle (voice_conference_create reg ConferenceName Moderator From now)
                    (map (ConferenceJoin ConferenceName) ps)) ConferenceName) = Some ps) \<and>
   ((\<forall>log. \<exists>sid. platform log = Inr sid) \<and>
    (\<forall>p \<in> set (opt_participants options). startsWith p ''whatsapp:'') \<and>
    distinct (opt_participants options) \<longrightarrow>
      (\<exists>conference s'. createConference platform this s options =
          (Inr conference,
           this\<lparr>activeConferences :=
             Map_set (activeConferences this) (opt_conferenceId options) conference\<rparr>,
           s') \<and>
        getParticipants conference = opt_participants options))"
proof (intro conjI impI)
  let ?c = "\<lparr>conference_id = ConferenceName, participants = [],
           moderator = (if Moderator = Some ''true'' then From else None), createdAt = now\<rparr>"
  show g: "Map_get (voice_conference_create reg ConferenceName Moderator From now) ConferenceName = Some ?c"
    unfolding voice_conference_create_def by (rule Map_get_Map_set_same)
  {
    assume "distinct ps"
    then have "distinct (participants ?c @ ps)"
      by simp
    from join_appends [OF g this]
    show "map_option participants
        (Map_get (foldl handle (voice_conference_create reg ConferenceName Moderator From now)
                    (map (ConferenceJoin ConferenceName) ps)) ConferenceName) = Some ps"
      by simp
  }
next
  assume "name \<noteq> ConferenceName"
  then show "Map_get (voice_conference_create reg ConferenceName Moderator From now) name = Map_get reg name"
    unfolding voice_conference_create_def by (rule Map_get_Map_set_other)
next
  assume "(\<forall>log. \<exists>sid. platform log = Inr sid) \<and>
    (\<forall>p \<in> set (opt_participants options). startsWith p ''whatsapp:'') \<and>
    distinct (opt_participants options)"
  then show "\<exists>conference s'. createConference platform this s options =
          (Inr conference,
           this\<lparr>activeConferences :=
             Map_set (activeConferences this) (opt_conferenceId options) conference\<rparr>,
           s') \<and>
        getParticipants conference = opt_participants options"
    using createConference_accept by blast
qed


theorem createConference_overwrites_witness:
  "Map_get (voice_conference_create [] ''c1'' (Some ''true'') (Some ''whatsapp:+15550001'') 1000) ''c1'' =
     Some \<lparr>conference_id = ''c1'', participants = [],
           moderator = Some ''whatsapp:+15550001'', createdAt = 1000\<rparr> \<and>
   Map_get (voice_conference_create
              [(''c2'', \<lparr>conference_id = ''c2'', participants = [], moderator = None, createdAt = 5\<rparr>)]
              ''c1'' (Some ''true'') (Some ''whatsapp:+15550001'') 1000) ''c2'' =
     Some \<lparr>conference_id = ''c2'', participants = [], moderator = None, createdAt = 5\<rparr> \<and>
   map_option participants
     (Map_get (foldl handle
                 (voice_conference_create [] ''c1'' (Some ''true'') (Some ''whatsapp:+15550001'') 1000)
                 (map (ConferenceJoin ''c1'') [''whatsapp:+15550002'', ''whatsapp:+15550003'']))
        ''c1'') = Some [''whatsapp:+15550002'', ''whatsapp:+15550003''] \<and>
   (\<exists>conference s'.
      createConference (\<lambda>log. Inr ''CA'')
        \<lparr>config_whatsappSender = ''whatsapp:+15550000'', activeCalls = [], activeConferences = []\<rparr>
        \<lparr>calls = [], commands = []\<rparr>
        \<lparr>opt_conferenceId = ''c1'',
         opt_participants = [''whatsapp:+15550002'', ''whatsapp:+15550003''],
         opt_moderator = Some True, opt_muted = None, opt_hold = None\<rparr> =
      (Inr conference,
       \<lparr>config_whatsappSender = ''whatsapp:+15550000'', activeCalls = [],
        activeConferences = [(''c1'', conference)]\<rparr>, s') \<and>
      getParticipants conference = [''whatsapp:+15550002'', ''whatsapp:+15550003''])"
proof -
  let ?options = "\<lparr>opt_conferenceId = ''c1'',
         opt_participants = [''whatsapp:+15550002'', ''whatsapp:+15550003''],
         opt_moderator = Some True, opt_muted = None, opt_hold = None\<rparr>"
  let ?wv = "\<lparr>config_whatsappSender = ''whatsapp:+15550000'', activeCalls = [],
      activeConferences = []\<rparr>"
  let ?c2 = "\<lparr>conference_id = ''c2'', participants = [], moderator = None, createdAt = 5\<rparr>"
  have h: "(\<forall>log. \<exists>sid. (\<lambda>log. Inr ''CA'' :: string + string) log = Inr sid) \<and>
    (\<forall>p \<in> set (opt_participants ?options). startsWith p ''whatsapp:'') \<and>
    distinct (opt_participants ?options)"
    by (simp add: startsWith_def)
  have d: "distinct [''whatsapp:+15550002'', ''whatsapp:+15550003'']"
    by simp
  have n: "''c2'' \<noteq> ''c1''"
    by simp
  have g: "Map_get [(''c2'', ?c2)] ''c2'' = Some ?c2"
    by (simp add: Map_get_def)
  from createConference_overwrites [of "[]" "''c1''" "Some ''true''" "Some ''whatsapp:+15550001''"
      1000 "''c2''" "[''whatsapp:+15550002'', ''whatsapp:+15550003'']" "\<lambda>log. Inr ''CA''"
      ?options ?wv "\<lparr>calls = [], commands = []\<rparr>"] h d
  have a: "Map_get (voice_conference_create [] ''c1'' (Some ''true'') (Some ''whatsapp:+15550001'') 1000) ''c1'' =
     Some \<lparr>conference_id = ''c1'', participants = [],
           moderator = Some ''whatsapp:+15550001'', createdAt = 1000\<rparr>"
    and b: "map_option participants
     (Map_get (foldl handle
                 (voice_conference_create [] ''c1'' (Some ''true'') (Some ''whatsapp:+15550001'') 1000)
                 (map (ConferenceJoin ''c1'') [''whatsapp:+15550002'', ''whatsapp:+15550003'']))
        ''c1'') = Some [''whatsapp:+15550002'', ''whatsapp:+15550003'']"
    and c: "\<exists>conference s'. createConference (\<lambda>log. Inr ''CA'') ?wv \<lparr>calls = [], commands = []\<rparr> ?options =
      (Inr conference, ?wv\<lparr>activeConferences := Map_set (activeConferences ?wv) ''c1'' conference\<rparr>, s') \<and>
      getParticipants conference = [''whatsapp:+15550002'', ''whatsapp:+15550003'']"
    by simp_all
  from createConference_overwrites [of "[(''c2'', ?c2)]" "''c1''" "Some ''true''"
      "Some ''whatsapp:+15550001''" 1000 "''c2''" "[]" "\<lambda>log. Inr ''CA''"
      ?options ?wv "\<lparr>calls = [], commands = []\<rparr>"] n g
  have e: "Map_get (voice_conference_create [(''c2'', ?c2)]
              ''c1'' (Some ''true'') (Some ''whatsapp:+15550001'') 1000) ''c2'' = Some ?c2"
    by simp
  from c have c': "\<exists>conference s'. createConference (\<lambda>log. Inr ''CA'') ?wv \<lparr>calls = [], commands = []\<rparr> ?options =
      (Inr conference, \<lparr>config_whatsappSender = ''whatsapp:+15550000'', activeCalls = [],
        activeConferences = [(''c1'', conference)]\<rparr>, s') \<and>
      getParticipants conference = [''whatsapp:+15550002'', ''whatsapp:+15550003'']"
    by simp
  from a e b c' show ?thesis
    by blast
qed

text \<open>
  The registry holds conference \<open>c1\<close>, created at time 1000 with a moderator, and one
  participant has joined. A second create request for \<open>c1\<close> at time 2000 is served:
  the record is replaced by an empty one created at 2000. The client wrapper, asked to
  create \<open>c1\<close> while it holds a session \<open>c1\<close> with a participant, returns a new
  session and no error.
\<close>

theorem createConference_duplicate_counterexample:
  "Map_get (serve [ConferenceCreate ''c1'' (Some ''true'') (Some ''whatsapp:+15550001'') 1000,
                   ConferenceJoin ''c1'' ''whatsapp:+15550002'']) ''c1'' =
     Some \<lparr>conference_id = ''c1'', participants = [''whatsapp:+15550002''],
           moderator = Some ''whatsapp:+15550001'', createdAt = 1000\<rparr> \<and>
   Map_get (voice_conference_create
              (serve [ConferenceCreate ''c1'' (Some ''true'') (Some ''whatsapp:+15550001'') 1000,
                      ConferenceJoin ''c1'' ''whatsapp:+15550002''])
              ''c1'' None None 2000) ''c1'' =
     Some \<lparr>conference_id = ''c1'', participants = [], moderator = None, createdAt = 2000\<rparr> \<and>
   fst (createConference (\<lambda>log. Inr ''CA'')
          \<lparr>config_whatsappSender = ''whatsapp:+15550000'', activeCalls = [],
           activeConferences =
             [(''c1'', \<lparr>conferenceId = ''c1'', whatsappSender = ''whatsapp:+15550000'',
                       session_participants = [(''whatsapp:+15550002'', 1)],
                       conferenceCall = Some 0\<rparr>)]\<rparr>
          \<lparr>calls = [\<lparr>CallSid = ''CA'', muted = False, disconnected = False\<rparr>,
                     \<lparr>CallSid = ''CA'', muted = False, disconnected = False\<rparr>],
           commands = []\<rparr>
          \<lparr>opt_conferenceId = ''c1'', opt_participants = [], opt_moderator = None,
           opt_muted = None, opt_hold = None\<rparr>) =
     Inr \<lparr>conferenceId = ''c1'', whatsappSender = ''whatsapp:+15550000'',
          session_participants = [], conferenceCall = Some 2\<rparr>"
  by (simp add: serve_def voice_conference_create_def voice_conference_join_def Map_get_def
      createConference_def ConferenceSession_initialize_def new_ConferenceSession_def
      Device_connect_def Let_def)


section \<open>The conference template\<close>

text \<open>
  Claim C1. \<open>createConference\<close> should render the start-on-enter and end-on-exit flags
  as \<open>true\<close> for a moderator and \<open>false\<close> otherwise, every attribute quoted alike.
  The template as it stands in the source does not: the string literal opened at
  \<^verbatim>\<open>'false\<close> in the \<open>startConferenceOnEnter\<close> substitution runs into the end of the
  line, which is a syntax error, so no document is rendered for any argument. The
  sibling template of \<open>joinConference\<close>, whose literals are closed, reads as two
  substitutions.
\<close>

theorem createConference_template_unterminated:
  "scan_template createConference_template = Inl UnterminatedStringLiteral \<and>
   map_sum id substitutions (scan_template joinConference_template) =
     Inr [''params.muted ? 'true' : 'false'' @ [CHR 0x27], ''params.conferenceName'']"
  by code_simp

end
